theory Spec2Isabelle
  imports Complex_Main
begin

section \<open>Chebyshev bases of shenfun: data model\<close>

text \<open>
  The development embeds \<^verbatim>\<open>shenfun/chebyshev/bases.py\<close>. Arrays are one-dimensional:
  the transform axis is the only axis (\<^verbatim>\<open>axis = 0\<close>, the shape every constructor plans
  with under \<^verbatim>\<open>plan=True\<close>), so that \<^verbatim>\<open>self.sl(i)\<close>, the index that applies \<open>i\<close> along
  the transform axis, is the index \<open>i\<close> itself. Where a statement says which operation
  is applied to which entry, the float64 entries are read as real numbers and the
  operations as exact; where a statement depends on how the operations round (the
  evaluation of a Dirichlet expansion at the boundary), the entries are float64 values
  and every operation rounds as IEEE 754 has it. Every Python exception is a value of
  \<open>py_error\<close>, returned on the left of a sum.
\<close>

datatype py_error =
  AssertionError | AttributeError | IndexError | ValueError | ZeroDivisionError | ProviderError

text \<open>The two quadrature rules the constructor admits: \<^verbatim>\<open>'GC'\<close> (Chebyshev-Gauss) and
  \<^verbatim>\<open>'GL'\<close> (Chebyshev-Gauss-Lobatto).\<close>

datatype quad_rule = GC | GL

text \<open>Python indexing of a sequence of length \<open>n\<close>: a negative index counts from the
  end, and an index outside \<open>-n .. n-1\<close> raises IndexError.\<close>

definition py_index :: "nat \<Rightarrow> int \<Rightarrow> py_error + nat" where
  "py_index n i =
     (let j = (if i < 0 then int n + i else i)
      in if 0 \<le> j \<and> j < int n then Inr (nat j) else Inl IndexError)"

text \<open>\<^verbatim>\<open>array[i]\<close>, \<^verbatim>\<open>array[i] /= d\<close> and \<^verbatim>\<open>array[i] = v\<close> on a one-dimensional array.\<close>

definition get_at :: "'a list \<Rightarrow> int \<Rightarrow> py_error + 'a" where
  "get_at array i =
     (case py_index (length array) i of
        Inl e \<Rightarrow> Inl e
      | Inr j \<Rightarrow> Inr (array ! j))"

definition idiv_at :: "real list \<Rightarrow> int \<Rightarrow> real \<Rightarrow> py_error + real list" where
  "idiv_at array i d =
     (case py_index (length array) i of
        Inl e \<Rightarrow> Inl e
      | Inr j \<Rightarrow> Inr (array[j := array ! j / d]))"

definition set_at :: "real list \<Rightarrow> int \<Rightarrow> real \<Rightarrow> py_error + real list" where
  "set_at array i v =
     (case py_index (length array) i of
        Inl e \<Rightarrow> Inl e
      | Inr j \<Rightarrow> Inr (array[j := v]))"

subsection \<open>numpy on one-dimensional arrays\<close>

text \<open>
  A slice \<^verbatim>\<open>xs[start:stop]\<close> (step 1) of a sequence of length \<open>n\<close>: a bound that is
  absent is the end of the sequence, a negative bound counts from the end, and every
  bound is clipped to \<open>0 .. n\<close>. \<open>slice_lo\<close> and \<open>slice_hi\<close> are the clipped bounds.
\<close>

definition slice_bound :: "nat \<Rightarrow> int \<Rightarrow> nat" where
  "slice_bound n i = (if i < 0 then nat (max 0 (int n + i)) else min (nat i) n)"

definition slice_lo :: "nat \<Rightarrow> int option \<Rightarrow> nat" where
  "slice_lo n start = (case start of None \<Rightarrow> 0 | Some i \<Rightarrow> slice_bound n i)"

definition slice_hi :: "nat \<Rightarrow> int option \<Rightarrow> nat" where
  "slice_hi n stop = (case stop of None \<Rightarrow> n | Some i \<Rightarrow> slice_bound n i)"

definition py_slice :: "int option \<Rightarrow> int option \<Rightarrow> 'a list \<Rightarrow> 'a list" where
  "py_slice start stop xs =
     (let lo = slice_lo (length xs) start; hi = slice_hi (length xs) stop
      in take (hi - lo) (drop lo xs))"

text \<open>Broadcasting a one-dimensional array to length \<open>n\<close>: it has that length already,
  or it has length one and is repeated; anything else raises ValueError.\<close>

definition broadcast_to :: "nat \<Rightarrow> 'a list \<Rightarrow> py_error + 'a list" where
  "broadcast_to n vs =
     (if length vs = n then Inr vs
      else if length vs = 1 then Inr (replicate n (vs ! 0))
      else Inl ValueError)"

text \<open>\<^verbatim>\<open>target[...] = src\<close>.\<close>

definition assign_all :: "'a list \<Rightarrow> 'a list \<Rightarrow> py_error + 'a list" where
  "assign_all target src = broadcast_to (length target) src"

text \<open>\<^verbatim>\<open>xs[start:stop] = vs\<close>: the right-hand side is broadcast to the slice.\<close>

definition slice_assign ::
  "int option \<Rightarrow> int option \<Rightarrow> 'a list \<Rightarrow> 'a list \<Rightarrow> py_error + 'a list" where
  "slice_assign start stop xs vs =
     (let lo = slice_lo (length xs) start; hi = slice_hi (length xs) stop
      in case broadcast_to (hi - lo) vs of
           Inl e \<Rightarrow> Inl e
         | Inr ws \<Rightarrow> Inr (take lo xs @ ws @ drop (lo + (hi - lo)) xs))"

text \<open>An elementwise binary operation \<^verbatim>\<open>xs op ys\<close> with broadcasting of a length-one
  operand.\<close>

definition np_binop ::
  "('a \<Rightarrow> 'a \<Rightarrow> 'a) \<Rightarrow> 'a list \<Rightarrow> 'a list \<Rightarrow> py_error + 'a list" where
  "np_binop f xs ys =
     (if length xs = length ys then Inr (map2 f xs ys)
      else if length ys = 1 then Inr (map (\<lambda>x. f x (ys ! 0)) xs)
      else if length xs = 1 then Inr (map (\<lambda>y. f (xs ! 0) y) ys)
      else Inl ValueError)"

text \<open>\<^verbatim>\<open>xs[start:stop] op= vs\<close>: the slice is read, combined with the right-hand side
  and written back.\<close>

definition slice_update ::
  "('a \<Rightarrow> 'a \<Rightarrow> 'a) \<Rightarrow> int option \<Rightarrow> int option \<Rightarrow> 'a list \<Rightarrow> 'a list
     \<Rightarrow> py_error + 'a list" where
  "slice_update f start stop xs vs =
     (case np_binop f (py_slice start stop xs) vs of
        Inl e \<Rightarrow> Inl e
      | Inr ws \<Rightarrow> slice_assign start stop xs ws)"

text \<open>
  \<^verbatim>\<open>numpy.polynomial.chebyshev.chebpts2(npts)\<close>: \<^verbatim>\<open>cos(linspace(-pi, 0, npts))\<close>, and a
  ValueError for \<open>npts < 2\<close>. \<^verbatim>\<open>chebgauss(deg)\<close>: the points
  \<^verbatim>\<open>cos(pi * arange(1, 2*deg, 2) / (2.0*deg))\<close> with the weights \<^verbatim>\<open>ones(deg)*(pi/deg)\<close>,
  and a ValueError for \<open>deg \<le> 0\<close>.
\<close>

definition linspace :: "real \<Rightarrow> real \<Rightarrow> nat \<Rightarrow> real list" where
  "linspace a b n = map (\<lambda>i. a + real i * ((b - a) / real (n - 1))) [0..<n]"

definition chebpts2 :: "int \<Rightarrow> py_error + real list" where
  "chebpts2 npts =
     (if npts < 2 then Inl ValueError
      else Inr (map cos (linspace (- pi) 0 (nat npts))))"

definition chebgauss :: "int \<Rightarrow> py_error + (real list \<times> real list)" where
  "chebgauss deg =
     (if deg \<le> 0 then Inl ValueError
      else Inr (map (\<lambda>i. cos (pi * real (2 * i + 1) / (2 * real_of_int deg))) [0..<nat deg],
                replicate (nat deg) (pi / real_of_int deg)))"

text \<open>
  \<^verbatim>\<open>chebvander(x, deg)\<close>: row \<open>i\<close> holds \<open>T\<^sub>0(x\<^sub>i), ..., T\<^sub>d\<^sub>e\<^sub>g(x\<^sub>i)\<close>, computed by the loop
  \<^verbatim>\<open>v[0] = 1; v[1] = x; v[i] = v[i-1]*2x - v[i-2]\<close>; a negative degree raises ValueError.
  A two-dimensional array is its number of columns and its rows.
\<close>

record matrix =
  ncols :: nat
  mrows :: "real list list"

fun chebT :: "nat \<Rightarrow> real \<Rightarrow> real" where
  "chebT 0 x = 1"
| "chebT (Suc 0) x = x"
| "chebT (Suc (Suc k)) x = chebT (Suc k) x * (2 * x) - chebT k x"

definition chebvander :: "real list \<Rightarrow> int \<Rightarrow> py_error + matrix" where
  "chebvander x deg =
     (if deg < 0 then Inl ValueError
      else Inr \<lparr>ncols = nat deg + 1,
                mrows = map (\<lambda>xi. map (\<lambda>k. chebT k xi) [0..<nat deg + 1]) x\<rparr>)"

subsection \<open>float64 arithmetic\<close>

text \<open>
  A float64 value is a finite number or one of \<^verbatim>\<open>inf\<close>, \<^verbatim>\<open>-inf\<close> and \<^verbatim>\<open>nan\<close>. The three
  are one value here, \<open>NonFinite\<close>: the sum, the difference and the product of one of them
  with any value is one of them again, and the code that is modelled with float64
  values uses no other operation. The two zeros of float64 are one value as well, as no
  operation used tells them apart.
\<close>

datatype float64 = Fin real | NonFinite

text \<open>Rounding to the nearest integer, a tie to the even one.\<close>

definition round_half_even :: "real \<Rightarrow> int" where
  "round_half_even m =
     (let f = \<lfloor>m\<rfloor>
      in if m - of_int f < 1 / 2 then f
         else if 1 / 2 < m - of_int f then f + 1
         else if even f then f else f + 1)"

text \<open>
  The rounding of IEEE 754 binary64, to nearest with ties to even. A value has 53
  significant bits: in the binade \<open>2\<^sup>e \<le> |z| < 2\<^sup>e\<^sup>+\<^sup>1\<close> the float64 values are the multiples
  of \<open>2\<^sup>e\<^sup>-\<^sup>5\<^sup>2\<close>, and below \<open>2\<^sup>-\<^sup>1\<^sup>0\<^sup>2\<^sup>2\<close> (the subnormal range) they are the multiples of
  \<open>2\<^sup>-\<^sup>1\<^sup>0\<^sup>7\<^sup>4\<close>. A number that rounds to magnitude \<open>2\<^sup>1\<^sup>0\<^sup>2\<^sup>4\<close> or more overflows to an infinity.
\<close>

definition fl64 :: "real \<Rightarrow> float64" where
  "fl64 z =
     (if z = 0 then Fin 0
      else (let e = max \<lfloor>log 2 \<bar>z\<bar>\<rfloor> (- 1022);
                q = 2 powi (e - 52);
                y = of_int (round_half_even (z / q)) * q
            in if 2 ^ 1024 \<le> \<bar>y\<bar> then NonFinite else Fin y))"

text \<open>The float64 operations \<^verbatim>\<open>+\<close>, \<^verbatim>\<open>-\<close> and \<^verbatim>\<open>*\<close>: the exact result, rounded.\<close>

definition float_op :: "(real \<Rightarrow> real \<Rightarrow> real) \<Rightarrow> float64 \<Rightarrow> float64 \<Rightarrow> float64" where
  "float_op f a b =
     (case a of
        NonFinite \<Rightarrow> NonFinite
      | Fin x \<Rightarrow> (case b of NonFinite \<Rightarrow> NonFinite | Fin y \<Rightarrow> fl64 (f x y)))"

definition fadd :: "float64 \<Rightarrow> float64 \<Rightarrow> float64" where
  "fadd = float_op (+)"

definition fsub :: "float64 \<Rightarrow> float64 \<Rightarrow> float64" where
  "fsub = float_op (-)"

definition fmul :: "float64 \<Rightarrow> float64 \<Rightarrow> float64" where
  "fmul = float_op (*)"

text \<open>
  \<^verbatim>\<open>chebval(x, c)\<close> on float64 arrays, Clenshaw's recurrence as numpy writes it: for one
  coefficient the value is \<^verbatim>\<open>c[0] + 0*x\<close> and for two it is \<^verbatim>\<open>c[0] + c[1]*x\<close>; otherwise
  \<^verbatim>\<open>x2 = 2*x\<close>, \<^verbatim>\<open>c0, c1 = c[-2], c[-1]\<close> and, for \<^verbatim>\<open>i = 3 .. len(c)\<close>,
  \<^verbatim>\<open>c0, c1 = c[-i] - c1, c0 + c1*x2\<close>; the value is \<^verbatim>\<open>c0 + c1*x\<close>. An empty coefficient
  array raises IndexError at \<^verbatim>\<open>c[-2]\<close>.
\<close>

definition clenshaw_step :: "float64 \<Rightarrow> float64 \<Rightarrow> float64 \<times> float64 \<Rightarrow> float64 \<times> float64" where
  "clenshaw_step x2 ci cc = (fsub ci (snd cc), fadd (fst cc) (fmul (snd cc) x2))"

definition chebval1 :: "float64 \<Rightarrow> float64 list \<Rightarrow> float64" where
  "chebval1 x c =
     (if length c = 1 then fadd (c ! 0) (fmul (Fin 0) x)
      else if length c = 2 then fadd (c ! 0) (fmul (c ! 1) x)
      else (let x2 = fmul (Fin 2) x;
                cc = fold (clenshaw_step x2) (rev (take (length c - 2) c))
                       (c ! (length c - 2), c ! (length c - 1))
            in fadd (fst cc) (fmul (snd cc) x)))"

definition chebval :: "float64 list \<Rightarrow> float64 list \<Rightarrow> py_error + float64 list" where
  "chebval x c = (if c = [] then Inl IndexError else Inr (map (\<lambda>xi. chebval1 xi c) x))"

subsection \<open>Sequencing of calls that may raise\<close>

definition and_then :: "py_error + 'a \<Rightarrow> ('a \<Rightarrow> py_error + 'b) \<Rightarrow> py_error + 'b" where
  "and_then m f = (case m of Inl e \<Rightarrow> Inl e | Inr x \<Rightarrow> f x)"

subsection \<open>\<^verbatim>\<open>ChebyshevBase\<close>: configuration, quadrature, Vandermonde matrix\<close>

text \<open>
  The attributes every Chebyshev basis carries: the number of quadrature points
  \<^verbatim>\<open>N\<close>, the quadrature rule and the domain. \<^verbatim>\<open>vandermonde_scalar_product\<close> is a method
  of \<^verbatim>\<open>SpectralBase\<close>, which is not among the sources: it is a parameter of the model, the
  function from the input array and the output array to the values it leaves in the
  output array (or the exception it raises).
\<close>

record ChebyshevBase =
  basis_N :: int
  quad :: quad_rule
  domain :: "real \<times> real"
  vandermonde_scalar_product :: "real list \<Rightarrow> real list \<Rightarrow> py_error + real list"


text \<open>
  \<^verbatim>\<open>points_and_weights(N, scaled)\<close>. For \<^verbatim>\<open>'GL'\<close> the points are \<^verbatim>\<open>-chebpts2(N)\<close> and the
  weights \<^verbatim>\<open>full(N, pi/(N-1))\<close> with the first and the last halved; for \<^verbatim>\<open>'GC'\<close> both come
  from \<^verbatim>\<open>chebgauss(N)\<close>. With \<^verbatim>\<open>scaled is True\<close> the points are mapped to the domain.
\<close>

definition points_and_weights ::
  "'a ChebyshevBase_scheme \<Rightarrow> int \<Rightarrow> bool \<Rightarrow> py_error + (real list \<times> real list)" where
  "points_and_weights self n scaled =
     and_then
       (case quad self of
          GL \<Rightarrow>
            and_then (chebpts2 n) (\<lambda>p.
            and_then (idiv_at (replicate (nat n) (pi / real_of_int (n - 1))) 0 2) (\<lambda>w1.
            and_then (idiv_at w1 (- 1) 2) (\<lambda>w2.
            Inr (map uminus p, w2))))
        | GC \<Rightarrow> chebgauss n)
       (\<lambda>pw.
          if scaled
          then (let a = fst (domain self); b = snd (domain self)
                in Inr (map (\<lambda>x. a + (b - a) / 2 + x * (b - a) / 2) (fst pw), snd pw))
          else Inr pw)"

text \<open>\<^verbatim>\<open>vandermonde(x)\<close>: \<^verbatim>\<open>chebvander(x, self.N - 1)\<close>.\<close>

definition vandermonde :: "'a ChebyshevBase_scheme \<Rightarrow> real list \<Rightarrow> py_error + matrix" where
  "vandermonde self x = chebvander x (basis_N self - 1)"

subsection \<open>\<^verbatim>\<open>Basis\<close>: the plain Chebyshev basis, planned\<close>

text \<open>
  A planned plain basis. \<open>buf_U\<close> and \<open>buf_V\<close> are the contents of the two buffers
  \<^verbatim>\<open>U\<close> and \<^verbatim>\<open>V\<close> that \<^verbatim>\<open>plan\<close> binds to \<^verbatim>\<open>forward\<close>, \<^verbatim>\<open>backward\<close> and
  \<^verbatim>\<open>scalar_product\<close>. \<open>xfftn_fwd\<close> and \<open>xfftn_bck\<close> are the transforms of the external
  provider, as functions from the contents of the input buffer to what the call
  leaves in the output buffer: \<^verbatim>\<open>self.xfftn_fwd()\<close> reads \<^verbatim>\<open>U\<close> and writes \<^verbatim>\<open>V\<close>,
  \<^verbatim>\<open>self.xfftn_bck()\<close> reads \<^verbatim>\<open>V\<close> and writes \<^verbatim>\<open>U\<close>. The model keeps the buffer a
  transform reads as it was.
\<close>

record Basis = ChebyshevBase +
  xfftn_fwd :: "real list \<Rightarrow> real list"
  xfftn_bck :: "real list \<Rightarrow> real list"
  buf_U :: "real list"
  buf_V :: "real list"

text \<open>The start of every transform: \<^verbatim>\<open>if input_array is not None:
  self.scalar_product.input_array[...] = input_array\<close>.\<close>

definition load_input :: "Basis \<Rightarrow> real list option \<Rightarrow> py_error + Basis" where
  "load_input self input_array =
     (case input_array of
        None \<Rightarrow> Inr self
      | Some a \<Rightarrow> and_then (assign_all (buf_U self) a) (\<lambda>u. Inr (self\<lparr>buf_U := u\<rparr>)))"

text \<open>The end of every transform: \<^verbatim>\<open>if output_array is not None: output_array[...] =
  self.scalar_product.output_array; return output_array\<close>, and otherwise the output
  buffer itself is returned.\<close>

definition store_output :: "Basis \<Rightarrow> real list option \<Rightarrow> py_error + (real list \<times> Basis)" where
  "store_output self output_array =
     (case output_array of
        None \<Rightarrow> Inr (buf_V self, self)
      | Some oa \<Rightarrow> and_then (assign_all oa (buf_V self)) (\<lambda>r. Inr (r, self)))"

text \<open>
  \<^verbatim>\<open>Basis.scalar_product(input_array, output_array, fast_transform)\<close>. On the fast path:
  \<^verbatim>\<open>assert self.N == input_array.shape[axis]\<close>, \<^verbatim>\<open>out = self.xfftn_fwd()\<close>, then
  \<^verbatim>\<open>out *= pi/(2*N)\<close> for \<^verbatim>\<open>'GC'\<close> and \<^verbatim>\<open>out *= pi/(2*(N-1))\<close> for \<^verbatim>\<open>'GL'\<close>; a zero divisor
  raises ZeroDivisionError. The result is a pair of the returned array and the basis
  with its buffers as the call leaves them.
\<close>

definition fast_scalar_product :: "Basis \<Rightarrow> py_error + Basis" where
  "fast_scalar_product self =
     (if basis_N self \<noteq> int (length (buf_U self)) then Inl AssertionError
      else (let out = xfftn_fwd self (buf_U self)
            in case quad self of
                 GC \<Rightarrow>
                   if 2 * basis_N self = 0 then Inl ZeroDivisionError
                   else Inr (self\<lparr>buf_V := map (\<lambda>y. y * (pi / real_of_int (2 * basis_N self))) out\<rparr>)
               | GL \<Rightarrow>
                   if 2 * (basis_N self - 1) = 0 then Inl ZeroDivisionError
                   else Inr (self\<lparr>buf_V :=
                          map (\<lambda>y. y * (pi / real_of_int (2 * (basis_N self - 1)))) out\<rparr>)))"

text \<open>The slow path: \<^verbatim>\<open>self.vandermonde_scalar_product(input_array, output_array)\<close>
  on the two buffers; \<open>vsp\<close> is that method of the basis that makes the call.\<close>

definition slow_scalar_product ::
  "(real list \<Rightarrow> real list \<Rightarrow> py_error + real list) \<Rightarrow> Basis \<Rightarrow> py_error + Basis" where
  "slow_scalar_product vsp self =
     and_then (vsp (buf_U self) (buf_V self)) (\<lambda>w.
     and_then (assign_all (buf_V self) w) (\<lambda>v.
     Inr (self\<lparr>buf_V := v\<rparr>)))"

definition scalar_product ::
  "Basis \<Rightarrow> real list option \<Rightarrow> real list option \<Rightarrow> bool \<Rightarrow> py_error + (real list \<times> Basis)" where
  "scalar_product self input_array output_array fast_transform =
     and_then (load_input self input_array) (\<lambda>b1.
     and_then (if fast_transform then fast_scalar_product b1 else slow_scalar_product (vandermonde_scalar_product b1) b1) (\<lambda>b2.
     store_output b2 output_array))"

text \<open>
  \<^verbatim>\<open>Basis.apply_inverse_mass(array)\<close>: \<^verbatim>\<open>array *= 2/pi\<close>, then \<^verbatim>\<open>array[0] /= 2\<close>, and
  for \<^verbatim>\<open>'GL'\<close> also \<^verbatim>\<open>array[-1] /= 2\<close>.
\<close>

definition apply_inverse_mass :: "'a ChebyshevBase_scheme \<Rightarrow> real list \<Rightarrow> py_error + real list" where
  "apply_inverse_mass self array =
     (let a1 = map (\<lambda>v. v * (2 / pi)) array
      in and_then (idiv_at a1 0 2) (\<lambda>a2.
         if quad self = GL then idiv_at a2 (- 1) 2 else Inr a2))"

subsection \<open>Work arrays and wavenumbers\<close>

text \<open>
  Modelled from the spec: the container \<^verbatim>\<open>work\<close> of \<^verbatim>\<open>shenfun.spectralbase\<close> is not among
  the sources. \<^verbatim>\<open>work[(a, 0)]\<close> is a scratch array of the shape of \<^verbatim>\<open>a\<close>, filled with
  zeros when it is handed out; \<^verbatim>\<open>evaluate_expansion_all\<close> and \<^verbatim>\<open>eval\<close> of the Shen bases
  write a part of it and read all of it, so they rely on the rest being zero.
\<close>

definition work :: "float64 list \<Rightarrow> float64 list" where
  "work a = replicate (length a) (Fin 0)"

text \<open>
  Modelled from the spec: \<^verbatim>\<open>SpectralBase.wavenumbers\<close> is not among the sources. The
  factor arrays are indexed by the wavenumber \<open>k\<close>, and their length is the length of
  the array along the transform axis less the boundary rows of the basis (two for
  Dirichlet and Neumann, four for the biharmonic basis): the wavenumbers are
  \<open>0, 1, ..., len - rows - 1\<close>.
\<close>

definition wavenumbers :: "nat \<Rightarrow> nat \<Rightarrow> real list" where
  "wavenumbers boundary_rows len = map real [0..<len - boundary_rows]"

subsection \<open>\<^verbatim>\<open>ShenDirichletBasis\<close>\<close>

text \<open>
  The attributes \<^verbatim>\<open>ShenDirichletBasis.__init__\<close> sets next to those of
  \<^verbatim>\<open>ChebyshevBase\<close>: the wrapped plain basis \<^verbatim>\<open>CT\<close>, \<^verbatim>\<open>_scaled\<close>, \<^verbatim>\<open>_factor\<close> and the
  boundary values \<^verbatim>\<open>bc\<close>.
\<close>

record ShenDirichletBasis = ChebyshevBase +
  dirichlet_CT :: Basis
  dirichlet_scaled :: bool
  dirichlet_factor :: "real list"
  dirichlet_bc :: "real \<times> real"

text \<open>\<^verbatim>\<open>is_scaled(self)\<close>: \<^verbatim>\<open>return False\<close>.\<close>

definition is_scaled :: "ShenDirichletBasis \<Rightarrow> bool" where
  "is_scaled self = False"

text \<open>
  \<^verbatim>\<open>ShenDirichletBasis.get_vandermonde_basis(V)\<close>, row by row: \<^verbatim>\<open>P = zeros(V.shape)\<close>,
  \<^verbatim>\<open>P[:, :-2] = V[:, :-2] - V[:, 2:]\<close>, \<^verbatim>\<open>P[:, -2] = (V[:, 0] + V[:, 1])/2\<close> and
  \<^verbatim>\<open>P[:, -1] = (V[:, 0] - V[:, 1])/2\<close>. With fewer than two columns the column indices
  \<^verbatim>\<open>1\<close> and \<^verbatim>\<open>-2\<close> raise IndexError.
\<close>

definition dirichlet_row :: "real list \<Rightarrow> real list" where
  "dirichlet_row v =
     (let n = length v;
          p0 = replicate n 0;
          p1 = map2 (-) (py_slice None (Some (- 2)) v) (py_slice (Some 2) None v) @ drop (n - 2) p0;
          p2 = p1[n - 2 := (v ! 0 + v ! 1) / 2]
      in p2[n - 1 := (v ! 0 - v ! 1) / 2])"

definition ShenDirichlet_get_vandermonde_basis :: "matrix \<Rightarrow> py_error + matrix" where
  "ShenDirichlet_get_vandermonde_basis V =
     (if ncols V < 2 then Inl IndexError
      else Inr \<lparr>ncols = ncols V, mrows = map dirichlet_row (mrows V)\<rparr>)"

text \<open>
  \<^verbatim>\<open>ShenDirichletBasis.eval(x, fk)\<close> with \<^verbatim>\<open>output_array=None\<close>, on float64 arrays:
  \<^verbatim>\<open>w_hat = work[(fk, 0)]\<close>, \<^verbatim>\<open>output = chebval(x, fk[:-2])\<close>, \<^verbatim>\<open>w_hat[2:] = fk[:-2]\<close>,
  \<^verbatim>\<open>output -= chebval(x, w_hat)\<close> and
  \<^verbatim>\<open>output += 0.5*(fk[-1]*(1+x) + fk[-2]*(1-x))\<close>, every operation rounded.
\<close>

definition ShenDirichlet_eval :: "float64 list \<Rightarrow> float64 list \<Rightarrow> py_error + float64 list" where
  "ShenDirichlet_eval x fk =
     and_then (chebval x (py_slice None (Some (- 2)) fk)) (\<lambda>o1.
     and_then (slice_assign (Some 2) None (work fk) (py_slice None (Some (- 2)) fk)) (\<lambda>w_hat.
     and_then (chebval x w_hat) (\<lambda>c2.
     and_then (np_binop fsub o1 c2) (\<lambda>o2.
     and_then (get_at fk (- 1)) (\<lambda>f1.
     and_then (get_at fk (- 2)) (\<lambda>f2.
     np_binop fadd o2
       (map (\<lambda>xi. fmul (Fin (1 / 2))
                    (fadd (fmul f1 (fadd (Fin 1) xi)) (fmul f2 (fsub (Fin 1) xi)))) x)))))))"

subsection \<open>\<^verbatim>\<open>ShenNeumannBasis\<close>\<close>

text \<open>
  A planned Neumann basis: after \<^verbatim>\<open>plan\<close> its \<^verbatim>\<open>scalar_product\<close> is bound to the two
  buffers of the wrapped plain basis \<^verbatim>\<open>CT\<close>, so the buffers of the model are those of
  \<open>neumann_CT\<close>.
\<close>

record ShenNeumannBasis = ChebyshevBase +
  neumann_mean :: real
  neumann_CT :: Basis
  neumann_factor :: "real list"

text \<open>\<^verbatim>\<open>set_factor_array(v)\<close>: when the shape of \<^verbatim>\<open>_factor\<close> is not that of \<^verbatim>\<open>v\<close>,
  \<^verbatim>\<open>_factor = (k/(k+2))**2\<close> over the wavenumbers \<open>k\<close>.\<close>

definition set_factor_array :: "ShenNeumannBasis \<Rightarrow> real list \<Rightarrow> ShenNeumannBasis" where
  "set_factor_array self v =
     (if length (neumann_factor self) \<noteq> length v
      then self\<lparr>neumann_factor := map (\<lambda>k. (k / (k + 2))\<^sup>2) (wavenumbers 2 (length v))\<rparr>
      else self)"

text \<open>
  \<^verbatim>\<open>ShenNeumannBasis.scalar_product\<close>. Fast path: \<^verbatim>\<open>fk = self.CT.scalar_product()\<close>,
  \<^verbatim>\<open>self.set_factor_array(fk)\<close>, \<^verbatim>\<open>fk[0:-2] -= self._factor * fk[2:]\<close>. On either path
  \<^verbatim>\<open>fk[0] = self.mean*pi\<close> and \<^verbatim>\<open>fk[-2:] = 0\<close> follow, on the output buffer.
\<close>

definition neumann_recombine :: "ShenNeumannBasis \<Rightarrow> py_error + ShenNeumannBasis" where
  "neumann_recombine self =
     and_then (scalar_product (neumann_CT self) None None True) (\<lambda>r.
       (let fk = fst r; self1 = set_factor_array self fk
        in and_then (np_binop (*) (neumann_factor self1) (py_slice (Some 2) None fk)) (\<lambda>t.
           and_then (slice_update (-) (Some 0) (Some (- 2)) fk t) (\<lambda>fk1.
           Inr (self1\<lparr>neumann_CT := (snd r)\<lparr>buf_V := fk1\<rparr>\<rparr>)))))"

definition neumann_finish :: "ShenNeumannBasis \<Rightarrow> py_error + ShenNeumannBasis" where
  "neumann_finish self =
     and_then (set_at (buf_V (neumann_CT self)) 0 (neumann_mean self * pi)) (\<lambda>fk1.
     and_then (slice_assign (Some (- 2)) None fk1 [0]) (\<lambda>fk2.
     Inr (self\<lparr>neumann_CT := (neumann_CT self)\<lparr>buf_V := fk2\<rparr>\<rparr>)))"

definition ShenNeumann_scalar_product ::
  "ShenNeumannBasis \<Rightarrow> real list option \<Rightarrow> real list option \<Rightarrow> bool
     \<Rightarrow> py_error + (real list \<times> ShenNeumannBasis)" where
  "ShenNeumann_scalar_product self input_array output_array fast_transform =
     and_then (load_input (neumann_CT self) input_array) (\<lambda>ct1.
     and_then
       (if fast_transform then neumann_recombine (self\<lparr>neumann_CT := ct1\<rparr>)
        else and_then (slow_scalar_product (vandermonde_scalar_product self) ct1) (\<lambda>ct2.
             Inr (self\<lparr>neumann_CT := ct2\<rparr>))) (\<lambda>self2.
     and_then (neumann_finish self2) (\<lambda>self3.
     and_then (store_output (neumann_CT self3) output_array) (\<lambda>r.
     Inr (fst r, self3)))))"

subsection \<open>\<^verbatim>\<open>ShenBiharmonicBasis\<close>\<close>

record ShenBiharmonicBasis = ChebyshevBase +
  biharmonic_CT :: Basis
  biharmonic_factor1 :: "real list"
  biharmonic_factor2 :: "real list"

text \<open>\<^verbatim>\<open>set_factor_arrays(v)\<close>: when the shape of \<^verbatim>\<open>_factor1\<close> is not that of
  \<^verbatim>\<open>v[0:N-4]\<close>, \<^verbatim>\<open>_factor1 = -2*(k+2)/(k+3)\<close> and \<^verbatim>\<open>_factor2 = (k+1)/(k+3)\<close> over the
  wavenumbers \<open>k\<close>.\<close>

definition set_factor_arrays :: "ShenBiharmonicBasis \<Rightarrow> real list \<Rightarrow> ShenBiharmonicBasis" where
  "set_factor_arrays self v =
     (if length (biharmonic_factor1 self) \<noteq> length (py_slice (Some 0) (Some (basis_N self - 4)) v)
      then self\<lparr>biharmonic_factor1 := map (\<lambda>k. - 2 * (k + 2) / (k + 3)) (wavenumbers 4 (length v)),
                biharmonic_factor2 := map (\<lambda>k. (k + 1) / (k + 3)) (wavenumbers 4 (length v))\<rparr>
      else self)"

text \<open>
  \<^verbatim>\<open>ShenBiharmonicBasis.scalar_product\<close>. Fast path: \<^verbatim>\<open>output = self.CT.scalar_product()\<close>,
  \<^verbatim>\<open>Tk\<close> a copy of it, \<^verbatim>\<open>self.set_factor_arrays(Tk)\<close>,
  \<^verbatim>\<open>output[0:N-4] += self._factor1 * Tk[2:-2]\<close> and
  \<^verbatim>\<open>output[0:N-4] += self._factor2 * Tk[4:]\<close>. On either path \<^verbatim>\<open>output[-4:] = 0\<close> follows.
\<close>

definition biharmonic_recombine :: "ShenBiharmonicBasis \<Rightarrow> py_error + ShenBiharmonicBasis" where
  "biharmonic_recombine self =
     and_then (scalar_product (biharmonic_CT self) None None True) (\<lambda>r.
       (let output = fst r; Tk = output; self1 = set_factor_arrays self Tk
        in and_then (np_binop (*) (biharmonic_factor1 self1) (py_slice (Some 2) (Some (- 2)) Tk)) (\<lambda>t1.
           and_then (slice_update (+) (Some 0) (Some (basis_N self - 4)) output t1) (\<lambda>o1.
           and_then (np_binop (*) (biharmonic_factor2 self1) (py_slice (Some 4) None Tk)) (\<lambda>t2.
           and_then (slice_update (+) (Some 0) (Some (basis_N self - 4)) o1 t2) (\<lambda>o2.
           Inr (self1\<lparr>biharmonic_CT := (snd r)\<lparr>buf_V := o2\<rparr>\<rparr>)))))))"

definition biharmonic_finish :: "ShenBiharmonicBasis \<Rightarrow> py_error + ShenBiharmonicBasis" where
  "biharmonic_finish self =
     and_then (slice_assign (Some (- 4)) None (buf_V (biharmonic_CT self)) [0]) (\<lambda>o3.
     Inr (self\<lparr>biharmonic_CT := (biharmonic_CT self)\<lparr>buf_V := o3\<rparr>\<rparr>))"

definition ShenBiharmonic_scalar_product ::
  "ShenBiharmonicBasis \<Rightarrow> real list option \<Rightarrow> real list option \<Rightarrow> bool
     \<Rightarrow> py_error + (real list \<times> ShenBiharmonicBasis)" where
  "ShenBiharmonic_scalar_product self input_array output_array fast_transform =
     and_then (load_input (biharmonic_CT self) input_array) (\<lambda>ct1.
     and_then
       (if fast_transform then biharmonic_recombine (self\<lparr>biharmonic_CT := ct1\<rparr>)
        else and_then (slow_scalar_product (vandermonde_scalar_product self) ct1) (\<lambda>ct2.
             Inr (self\<lparr>biharmonic_CT := ct2\<rparr>))) (\<lambda>self2.
     and_then (biharmonic_finish self2) (\<lambda>self3.
     and_then (store_output (biharmonic_CT self3) output_array) (\<lambda>r.
     Inr (fst r, self3)))))"

subsection \<open>The transform provider\<close>

text \<open>
  \<^verbatim>\<open>Basis.__init__\<close> binds \<^verbatim>\<open>pyfftw.builders.dct\<close> of type 2 (forward) and type 3
  (backward) for \<^verbatim>\<open>'GC'\<close>, and of type 1 in both directions for \<^verbatim>\<open>'GL'\<close>. The provider
  is external; these are the transforms FFTW documents for the three types
  (REDFT00, REDFT10 and REDFT01), none of them normalised:
  \<^item> type 1: \<open>Y\<^sub>k = X\<^sub>0 + (-1)\<^sup>k X\<^sub>n\<^sub>-\<^sub>1 + 2 \<Sum>\<^sub>j\<^sub>=\<^sub>1\<^sup>n\<^sup>-\<^sup>2 X\<^sub>j cos(pi j k / (n-1))\<close>;
  \<^item> type 2: \<open>Y\<^sub>k = 2 \<Sum>\<^sub>j\<^sub>=\<^sub>0\<^sup>n\<^sup>-\<^sup>1 X\<^sub>j cos(pi (j + 1/2) k / n)\<close>;
  \<^item> type 3: \<open>Y\<^sub>k = X\<^sub>0 + 2 \<Sum>\<^sub>j\<^sub>=\<^sub>1\<^sup>n\<^sup>-\<^sup>1 X\<^sub>j cos(pi j (k + 1/2) / n)\<close>.
\<close>

definition dct1 :: "real list \<Rightarrow> real list" where
  "dct1 xs =
     map (\<lambda>k. xs ! 0 + (- 1) ^ k * xs ! (length xs - 1)
            + 2 * sum_list (map (\<lambda>j. xs ! j * cos (pi * real j * real k / real (length xs - 1)))
                              [1..<length xs - 1]))
       [0..<length xs]"

definition dct2 :: "real list \<Rightarrow> real list" where
  "dct2 xs =
     map (\<lambda>k. 2 * sum_list (map (\<lambda>j. xs ! j * cos (pi * (real j + 1 / 2) * real k / real (length xs)))
                              [0..<length xs]))
       [0..<length xs]"

definition dct3 :: "real list \<Rightarrow> real list" where
  "dct3 xs =
     map (\<lambda>k. xs ! 0
            + 2 * sum_list (map (\<lambda>j. xs ! j * cos (pi * real j * (real k + 1 / 2) / real (length xs)))
                              [1..<length xs]))
       [0..<length xs]"

definition provider_fwd :: "quad_rule \<Rightarrow> real list \<Rightarrow> real list" where
  "provider_fwd q = (case q of GC \<Rightarrow> dct2 | GL \<Rightarrow> dct1)"

definition provider_bck :: "quad_rule \<Rightarrow> real list \<Rightarrow> real list" where
  "provider_bck q = (case q of GC \<Rightarrow> dct3 | GL \<Rightarrow> dct1)"

text \<open>
  The plain basis as \<^verbatim>\<open>Basis(N, quad, plan=True, domain)\<close> leaves it: the provider's
  transforms for the quadrature rule, and two buffers of \<open>N\<close> zeros.
\<close>

definition planned_Basis ::
  "int \<Rightarrow> quad_rule \<Rightarrow> real \<times> real \<Rightarrow> (real list \<Rightarrow> real list \<Rightarrow> py_error + real list) \<Rightarrow> Basis" where
  "planned_Basis n q dmn vsp =
     \<lparr>basis_N = n, quad = q, domain = dmn, vandermonde_scalar_product = vsp,
      xfftn_fwd = provider_fwd q, xfftn_bck = provider_bck q,
      buf_U = replicate (nat n) 0, buf_V = replicate (nat n) 0\<rparr>"

subsection \<open>\<^verbatim>\<open>plan\<close>: buffers and bound callables as objects\<close>

text \<open>
  What \<^verbatim>\<open>plan\<close> does is allocate arrays and bind callables, so its model tracks the
  identity of objects and not the contents of arrays. Every object \<^verbatim>\<open>plan\<close> creates
  takes the next free identity of the heap, a counter that is threaded through the
  calls. An array is its identity, its shape (always a tuple) and its element type.
\<close>

datatype np_dtype = Float64 | Complex128

record ndarray =
  array_id :: nat
  array_shape :: "int list"
  array_dtype :: np_dtype

text \<open>A transform object: an FFTW plan of the provider, or a \<^verbatim>\<open>_dct_wrap\<close> around one
  (\<open>xfftn_wraps\<close> is then the identity of the wrapped plan), with the two arrays it is
  bound to.\<close>

record xfftn_obj =
  xfftn_id :: nat
  xfftn_wraps :: "nat option"
  xfftn_input :: ndarray
  xfftn_output :: ndarray

text \<open>A \<^verbatim>\<open>_func_wrap\<close>: the bound callable that replaces \<^verbatim>\<open>forward\<close>, \<^verbatim>\<open>backward\<close> or
  \<^verbatim>\<open>scalar_product\<close>, with the transform object and the two arrays it was given.\<close>

record func_wrap =
  wrap_id :: nat
  wrap_xfftn :: nat
  wrap_input :: ndarray
  wrap_output :: ndarray

text \<open>The attributes of a basis that \<^verbatim>\<open>plan\<close> reads and writes. \<open>None\<close> in
  \<open>plan_forward\<close> is the method as the class defines it, not yet a \<^verbatim>\<open>_func_wrap\<close>.\<close>

record planner =
  plan_axis :: int
  plan_forward :: "func_wrap option"
  plan_backward :: "func_wrap option"
  plan_scalar_product :: "func_wrap option"
  plan_xfftn_fwd :: "xfftn_obj option"
  plan_xfftn_bck :: "xfftn_obj option"

definition unplanned :: planner where
  "unplanned = \<lparr>plan_axis = 0, plan_forward = None, plan_backward = None,
     plan_scalar_product = None, plan_xfftn_fwd = None, plan_xfftn_bck = None\<rparr>"

text \<open>The arguments \<^verbatim>\<open>shape\<close> and \<^verbatim>\<open>axis\<close> as Python passes them: an integer or a tuple.
  The constructors call \<^verbatim>\<open>self.plan(N, 0, np.float, {})\<close>, with the integer \<open>N\<close> as shape.\<close>

datatype shape_arg = ShapeInt int | ShapeTuple "int list"

datatype axis_arg = AxisInt int | AxisTuple "int list"

text \<open>\<^verbatim>\<open>if isinstance(axis, tuple): axis = axis[0]\<close>.\<close>

definition axis_value :: "axis_arg \<Rightarrow> py_error + int" where
  "axis_value axis =
     (case axis of
        AxisInt a \<Rightarrow> Inr a
      | AxisTuple t \<Rightarrow> (case t of [] \<Rightarrow> Inl IndexError | a # _ \<Rightarrow> Inr a))"

text \<open>\<^verbatim>\<open>self.forward.input_array.shape == shape\<close>: the left-hand side is a tuple, and a
  tuple is equal to another tuple with the same entries and to no integer.\<close>

definition shape_equal :: "int list \<Rightarrow> shape_arg \<Rightarrow> bool" where
  "shape_equal t shape = (case shape of ShapeInt n \<Rightarrow> False | ShapeTuple s \<Rightarrow> t = s)"

text \<open>The guard of \<^verbatim>\<open>plan\<close>: \<^verbatim>\<open>isinstance(self.forward, _func_wrap)\<close> and
  \<^verbatim>\<open>self.forward.input_array.shape == shape and self.axis == axis\<close>.\<close>

definition already_planned :: "'a planner_scheme \<Rightarrow> shape_arg \<Rightarrow> int \<Rightarrow> bool" where
  "already_planned self shape ax =
     (case plan_forward self of
        None \<Rightarrow> False
      | Some w \<Rightarrow> shape_equal (array_shape (wrap_input w)) shape \<and> plan_axis self = ax)"

text \<open>\<^verbatim>\<open>pyfftw.empty_aligned(shape, dtype)\<close>: a new array; an integer shape is the
  one-entry tuple, and a negative dimension raises ValueError. The result carries the
  heap after the allocation.\<close>

definition shape_tuple :: "shape_arg \<Rightarrow> int list" where
  "shape_tuple shape = (case shape of ShapeInt n \<Rightarrow> [n] | ShapeTuple s \<Rightarrow> s)"

definition empty_aligned :: "nat \<Rightarrow> int list \<Rightarrow> np_dtype \<Rightarrow> py_error + (ndarray \<times> nat)" where
  "empty_aligned heap dims dtype =
     (if list_ex (\<lambda>d. d < 0) dims then Inl ValueError
      else Inr (\<lparr>array_id = heap, array_shape = dims, array_dtype = dtype\<rparr>, heap + 1))"

text \<open>
  The provider's builder \<^verbatim>\<open>pyfftw.builders.dct(a, axis=axis, **opts)\<close>: a new FFTW plan
  bound to \<open>a\<close> and to a new output array of the shape of \<open>a\<close>. The provider is external;
  the model lets it fail, with \<open>ProviderError\<close>, when the axis is not one of the array
  or a dimension is not positive. The options reach the provider only.
\<close>

definition provider_accepts :: "int list \<Rightarrow> int \<Rightarrow> bool" where
  "provider_accepts dims ax =
     (- int (length dims) \<le> ax \<and> ax < int (length dims) \<and> list_all (\<lambda>d. 0 < d) dims)"

definition build_dct :: "nat \<Rightarrow> ndarray \<Rightarrow> int \<Rightarrow> py_error + (xfftn_obj \<times> nat)" where
  "build_dct heap a ax =
     (if \<not> provider_accepts (array_shape a) ax then Inl ProviderError
      else Inr (\<lparr>xfftn_id = heap, xfftn_wraps = None, xfftn_input = a,
                 xfftn_output = \<lparr>array_id = heap + 1, array_shape = array_shape a,
                                  array_dtype = Float64\<rparr>\<rparr>,
                heap + 2))"

text \<open>The three last lines of \<^verbatim>\<open>plan\<close>: new \<^verbatim>\<open>_func_wrap\<close> objects for \<^verbatim>\<open>forward\<close>,
  \<^verbatim>\<open>backward\<close> and \<^verbatim>\<open>scalar_product\<close> on the buffers \<open>U\<close> and \<open>V\<close>.\<close>

definition bind_wrappers ::
  "nat \<Rightarrow> 'a planner_scheme \<Rightarrow> ndarray \<Rightarrow> ndarray \<Rightarrow> py_error + (nat \<times> 'a planner_scheme)" where
  "bind_wrappers heap self U V =
     (case (plan_xfftn_fwd self, plan_xfftn_bck self) of
        (Some fwd, Some bck) \<Rightarrow>
          Inr (heap + 3,
               self\<lparr>plan_forward := Some \<lparr>wrap_id = heap, wrap_xfftn = xfftn_id fwd,
                       wrap_input = U, wrap_output = V\<rparr>,
                    plan_backward := Some \<lparr>wrap_id = heap + 1, wrap_xfftn = xfftn_id bck,
                       wrap_input = V, wrap_output = U\<rparr>,
                    plan_scalar_product := Some \<lparr>wrap_id = heap + 2, wrap_xfftn = xfftn_id fwd,
                       wrap_input = U, wrap_output = V\<rparr>\<rparr>)
      | _ \<Rightarrow> Inl AttributeError)"

text \<open>
  \<^verbatim>\<open>ChebyshevBase.plan(shape, axis, dtype, options)\<close>, the plan of the plain basis. After
  the guard: \<^verbatim>\<open>U = empty_aligned(shape)\<close>, the forward plan on \<open>U\<close> with its output array
  \<open>V\<close>, the backward plan on \<open>V\<close>, then \<^verbatim>\<open>update_arrays\<close> binds both plans to the pair
  \<open>U\<close>, \<open>V\<close> (the output array the backward plan came with is dropped). For
  \<^verbatim>\<open>float64\<close> the plans are the transforms; otherwise two complex arrays are allocated
  and the plans are wrapped in \<^verbatim>\<open>_dct_wrap\<close>.
\<close>

definition ChebyshevBase_plan ::
  "nat \<Rightarrow> planner \<Rightarrow> shape_arg \<Rightarrow> axis_arg \<Rightarrow> np_dtype \<Rightarrow> (string \<times> string) list
     \<Rightarrow> py_error + (nat \<times> planner)" where
  "ChebyshevBase_plan heap self shape axis dtype options =
     and_then (axis_value axis) (\<lambda>ax.
     if already_planned self shape ax then Inr (heap, self)
     else
       and_then (empty_aligned heap (shape_tuple shape) Float64) (\<lambda>a1.
       and_then (build_dct (snd a1) (fst a1) ax) (\<lambda>p1.
       and_then (build_dct (snd p1) (xfftn_output (fst p1)) ax) (\<lambda>p2.
         (let U = fst a1; V = xfftn_output (fst p1);
              fwd = (fst p1)\<lparr>xfftn_input := U, xfftn_output := V\<rparr>;
              bck = (fst p2)\<lparr>xfftn_input := V, xfftn_output := U\<rparr>
          in if dtype = Float64
             then bind_wrappers (snd p2)
                    (self\<lparr>plan_axis := ax, plan_xfftn_fwd := Some fwd, plan_xfftn_bck := Some bck\<rparr>)
                    U V
             else
               and_then (empty_aligned (snd p2) (shape_tuple shape) Complex128) (\<lambda>a2.
               and_then (empty_aligned (snd a2) (shape_tuple shape) Complex128) (\<lambda>a3.
                 (let Uc = fst a2; Vc = fst a3; h = snd a3
                  in bind_wrappers (h + 2)
                       (self\<lparr>plan_axis := ax,
                             plan_xfftn_fwd := Some \<lparr>xfftn_id = h, xfftn_wraps = Some (xfftn_id fwd),
                                xfftn_input = Uc, xfftn_output = Vc\<rparr>,
                             plan_xfftn_bck := Some \<lparr>xfftn_id = h + 1,
                                xfftn_wraps = Some (xfftn_id bck),
                                xfftn_input = Vc, xfftn_output = Uc\<rparr>\<rparr>)
                       Uc Vc))))))))"

text \<open>
  The plan of a Shen basis (the three classes have the same \<^verbatim>\<open>plan\<close>): after the same
  guard on its own \<^verbatim>\<open>forward\<close>, \<^verbatim>\<open>self.CT.plan(shape, axis, dtype, options)\<close>, then the axis
  and the two transform objects are taken over from \<^verbatim>\<open>CT\<close>, and new wrappers are bound
  to the arrays of \<^verbatim>\<open>CT.xfftn_fwd\<close>.
\<close>

record shen_planner = planner +
  plan_CT :: planner

definition unplanned_Shen :: shen_planner where
  "unplanned_Shen = \<lparr>plan_axis = 0, plan_forward = None, plan_backward = None,
     plan_scalar_product = None, plan_xfftn_fwd = None, plan_xfftn_bck = None,
     plan_CT = unplanned\<rparr>"

definition Shen_plan ::
  "nat \<Rightarrow> shen_planner \<Rightarrow> shape_arg \<Rightarrow> axis_arg \<Rightarrow> np_dtype \<Rightarrow> (string \<times> string) list
     \<Rightarrow> py_error + (nat \<times> shen_planner)" where
  "Shen_plan heap self shape axis dtype options =
     and_then (axis_value axis) (\<lambda>ax.
     if already_planned self shape ax then Inr (heap, self)
     else
       and_then (ChebyshevBase_plan heap (plan_CT self) shape (AxisInt ax) dtype options) (\<lambda>r.
         (let ct = snd r
          in case plan_xfftn_fwd ct of
               None \<Rightarrow> Inl AttributeError
             | Some fwd \<Rightarrow>
                 bind_wrappers (fst r)
                   (self\<lparr>plan_CT := ct, plan_axis := plan_axis ct,
                         plan_xfftn_fwd := plan_xfftn_fwd ct, plan_xfftn_bck := plan_xfftn_bck ct\<rparr>)
                   (xfftn_input fwd) (xfftn_output fwd))))"

text \<open>The identities by which a planned basis is told from a re-planned one: those of
  the \<^verbatim>\<open>forward\<close> callable, of its input buffer and of its output buffer.\<close>

definition forward_identity :: "'a planner_scheme \<Rightarrow> (nat \<times> nat \<times> nat) option" where
  "forward_identity self =
     map_option (\<lambda>w. (wrap_id w, array_id (wrap_input w), array_id (wrap_output w)))
       (plan_forward self)"


subsection \<open>The constructors\<close>



section \<open>Properties\<close>

subsection \<open>Indexing, slices and sequencing\<close>

lemma and_then_Inl [simp]: "and_then (Inl e) f = Inl e"
  by (simp add: and_then_def)

lemma and_then_Inr [simp]: "and_then (Inr x) f = f x"
  by (simp add: and_then_def)

lemma py_index_0: "0 < n \<Longrightarrow> py_index n 0 = Inr 0"
  by (simp add: py_index_def)

lemma py_index_last: "0 < n \<Longrightarrow> py_index n (- 1) = Inr (n - 1)"
  by (simp add: py_index_def Let_def nat_diff_distrib' of_nat_diff)

subsection \<open>The inverse mass matrix of the plain basis\<close>

lemma apply_inverse_mass_value:
  assumes "array \<noteq> []"
  shows "apply_inverse_mass self array =
    Inr (let a1 = map (\<lambda>v. v * (2 / pi)) array; a2 = a1[0 := a1 ! 0 / 2]
         in if quad self = GL then a2[length array - 1 := a2 ! (length array - 1) / 2] else a2)"
  using assms
  by (simp add: apply_inverse_mass_def idiv_at_def py_index_0 py_index_last Let_def)

lemma apply_inverse_mass_map:
  assumes "array \<noteq> []"
  shows "apply_inverse_mass self array = Inr (map (\<lambda>k.
       array ! k * (2 / pi) / (if k = 0 then 2 else 1)
         / (if quad self = GL \<and> k = length array - 1 then 2 else 1)) [0..<length array])"
proof -
  let ?n = "length array"
  let ?a1 = "map (\<lambda>v. v * (2 / pi)) array"
  let ?a2 = "?a1[0 := ?a1 ! 0 / 2]"
  let ?out = "if quad self = GL then ?a2[?n - 1 := ?a2 ! (?n - 1) / 2] else ?a2"
  have n: "0 < ?n" using assms by simp
  have res: "apply_inverse_mass self array = Inr ?out"
    using apply_inverse_mass_value [OF assms, of self] by (simp add: Let_def)
  have "?out = map (\<lambda>k.
       array ! k * (2 / pi) / (if k = 0 then 2 else 1)
         / (if quad self = GL \<and> k = length array - 1 then 2 else 1)) [0..<length array]"
    using n by (intro nth_equalityI) (auto simp: nth_list_update)
  then show ?thesis using res by simp
qed

text \<open>
  C6. On a non-empty coefficient array \<^verbatim>\<open>apply_inverse_mass\<close> returns the array of the
  same length in which every entry is the input entry times \<open>2/pi\<close>, the entry at
  \<open>k = 0\<close> is halved once more and, for Gauss-Lobatto only, the last entry is halved
  once more; every other entry carries the factor \<open>2/pi\<close> alone.
\<close>

theorem apply_inverse_mass_entries:
  assumes "array \<noteq> []"
  shows "apply_inverse_mass self array = Inr (map (\<lambda>k.
       array ! k * (2 / pi) / (if k = 0 then 2 else 1)
         / (if quad self = GL \<and> k = length array - 1 then 2 else 1)) [0..<length array])"
  using assms by (rule apply_inverse_mass_map)

theorem apply_inverse_mass_entries_witness:
  "[pi, pi, pi] \<noteq> [] \<and>
   apply_inverse_mass \<lparr>basis_N = 3, quad = GL, domain = (- 1, 1),
       vandermonde_scalar_product = (\<lambda>u v. Inr v)\<rparr> [pi, pi, pi] = Inr [1, 2, 1] \<and>
   apply_inverse_mass \<lparr>basis_N = 3, quad = GC, domain = (- 1, 1),
       vandermonde_scalar_product = (\<lambda>u v. Inr v)\<rparr> [pi, pi, pi] = Inr [1, 2, 2]"
  using apply_inverse_mass_entries [of "[pi, pi, pi]" "\<lparr>basis_N = 3, quad = GL, domain = (- 1, 1),
       vandermonde_scalar_product = (\<lambda>u v. Inr v)\<rparr>"]
    apply_inverse_mass_entries [of "[pi, pi, pi]" "\<lparr>basis_N = 3, quad = GC, domain = (- 1, 1),
       vandermonde_scalar_product = (\<lambda>u v. Inr v)\<rparr>"]
  by (simp add: upt_rec)

subsection \<open>The scalar product of the plain basis\<close>

lemma broadcast_to_same: "length vs = n \<Longrightarrow> broadcast_to n vs = Inr vs"
  by (simp add: broadcast_to_def)

lemma assign_all_same: "length src = length target \<Longrightarrow> assign_all target src = Inr src"
  by (simp add: assign_all_def broadcast_to_same)

lemma assign_all_length: "assign_all target src = Inr r \<Longrightarrow> length r = length target"
  by (auto simp: assign_all_def broadcast_to_def split: if_splits)

lemma load_input_None: "load_input self None = Inr self"
  by (simp add: load_input_def)

lemma load_input_Some:
  "length a = length (buf_U self) \<Longrightarrow> load_input self (Some a) = Inr (self\<lparr>buf_U := a\<rparr>)"
  by (simp add: load_input_def assign_all_same)

lemma store_output_None: "store_output self None = Inr (buf_V self, self)"
  by (simp add: store_output_def)

text \<open>The factor by which the fast path scales the provider's forward transform.\<close>

lemma fast_scalar_product_value:
  assumes "basis_N self = int (length (buf_U self))" and "2 \<le> basis_N self"
  shows "fast_scalar_product self =
    Inr (self\<lparr>buf_V := map (\<lambda>y. y * (case quad self of
              GC \<Rightarrow> pi / (2 * real_of_int (basis_N self))
            | GL \<Rightarrow> pi / (2 * (real_of_int (basis_N self) - 1))))
          (xfftn_fwd self (buf_U self))\<rparr>)"
  using assms by (cases "quad self") (auto simp: fast_scalar_product_def Let_def)

text \<open>
  C2. On a planned plain basis with \<open>N \<ge> 2\<close> (the buffer \<^verbatim>\<open>U\<close> has \<open>N\<close> entries) and an
  input array of the planned shape, the fast path of \<^verbatim>\<open>scalar_product\<close> returns the
  provider's forward transform of the input with every entry multiplied by
  \<open>pi/(2N)\<close> for Gauss and by \<open>pi/(2(N-1))\<close> for Gauss-Lobatto; the same values are left
  in the output buffer.
\<close>

theorem scalar_product_fast_scaling:
  assumes "basis_N self = int (length (buf_U self))"
    and "2 \<le> basis_N self"
    and "length input_array = length (buf_U self)"
  shows "scalar_product self (Some input_array) None True =
    Inr (map (\<lambda>y. y * (case quad self of
              GC \<Rightarrow> pi / (2 * real_of_int (basis_N self))
            | GL \<Rightarrow> pi / (2 * (real_of_int (basis_N self) - 1))))
          (xfftn_fwd self input_array),
         self\<lparr>buf_U := input_array,
              buf_V := map (\<lambda>y. y * (case quad self of
                  GC \<Rightarrow> pi / (2 * real_of_int (basis_N self))
                | GL \<Rightarrow> pi / (2 * (real_of_int (basis_N self) - 1))))
                (xfftn_fwd self input_array)\<rparr>)"
proof -
  let ?b1 = "self\<lparr>buf_U := input_array\<rparr>"
  have l: "load_input self (Some input_array) = Inr ?b1"
    using assms(3) by (rule load_input_Some)
  have n: "basis_N ?b1 = int (length (buf_U ?b1))" "2 \<le> basis_N ?b1"
    using assms by simp_all
  show ?thesis
    unfolding scalar_product_def l
    by (cases "quad self") (simp_all add: fast_scalar_product_value [OF n] store_output_None)
qed

theorem scalar_product_fast_scaling_witness:
  "scalar_product \<lparr>basis_N = 2, quad = GL, domain = (- 1, 1),
       vandermonde_scalar_product = (\<lambda>u v. Inr v), xfftn_fwd = rev, xfftn_bck = rev,
       buf_U = [0, 0], buf_V = [0, 0]\<rparr> (Some [2, 4]) None True =
     Inr ([2 * pi, pi],
       \<lparr>basis_N = 2, quad = GL, domain = (- 1, 1),
        vandermonde_scalar_product = (\<lambda>u v. Inr v), xfftn_fwd = rev, xfftn_bck = rev,
        buf_U = [2, 4], buf_V = [2 * pi, pi]\<rparr>) \<and>
   fst (projr (scalar_product \<lparr>basis_N = 2, quad = GC, domain = (- 1, 1),
       vandermonde_scalar_product = (\<lambda>u v. Inr v), xfftn_fwd = rev, xfftn_bck = rev,
       buf_U = [0, 0], buf_V = [0, 0]\<rparr> (Some [2, 4]) None True)) = [pi, pi / 2]"
  using scalar_product_fast_scaling [of "\<lparr>basis_N = 2, quad = GL, domain = (- 1, 1),
       vandermonde_scalar_product = (\<lambda>u v. Inr v), xfftn_fwd = rev, xfftn_bck = rev,
       buf_U = [0, 0], buf_V = [0, 0]\<rparr>" "[2, 4]"]
    scalar_product_fast_scaling [of "\<lparr>basis_N = 2, quad = GC, domain = (- 1, 1),
       vandermonde_scalar_product = (\<lambda>u v. Inr v), xfftn_fwd = rev, xfftn_bck = rev,
       buf_U = [0, 0], buf_V = [0, 0]\<rparr>" "[2, 4]"]
  by simp

subsection \<open>Slices\<close>

lemma slice_bound_neg: "i < 0 \<Longrightarrow> slice_bound n i = n - nat (- i)"
  by (auto simp: slice_bound_def)

lemma slice_bound_nonneg: "0 \<le> i \<Longrightarrow> slice_bound n i = min (nat i) n"
  by (simp add: slice_bound_def)

lemma drop_min_length: "drop (min k (length v)) v = drop k v"
  by (cases "k \<le> length v") (simp_all add: min_def)

lemma py_slice_head2: "py_slice None (Some (- 2)) v = take (length v - 2) v"
  by (simp add: py_slice_def slice_lo_def slice_hi_def slice_bound_neg numeral_2_eq_2)

lemma py_slice_head2': "py_slice (Some 0) (Some (- 2)) v = take (length v - 2) v"
  by (simp add: py_slice_def slice_lo_def slice_hi_def slice_bound_neg slice_bound_nonneg
      numeral_2_eq_2)

lemma py_slice_from2: "py_slice (Some 2) None v = drop 2 v"
  using drop_min_length [of 2 v]
  by (simp add: py_slice_def slice_lo_def slice_hi_def slice_bound_nonneg)

lemma py_slice_from4: "py_slice (Some 4) None v = drop 4 v"
  using drop_min_length [of 4 v]
  by (simp add: py_slice_def slice_lo_def slice_hi_def slice_bound_nonneg)

subsection \<open>The Dirichlet basis\<close>

lemma length_dirichlet_row: "length (dirichlet_row v) = length v"
  by (simp add: dirichlet_row_def Let_def py_slice_head2 py_slice_from2)

lemma dirichlet_row_nth:
  assumes "2 \<le> length v" and "k < length v"
  shows "dirichlet_row v ! k =
    (if k < length v - 2 then v ! k - v ! (k + 2)
     else if k = length v - 2 then (v ! 0 + v ! 1) / 2
     else (v ! 0 - v ! 1) / 2)"
proof -
  let ?n = "length v"
  let ?p1 = "map2 (-) (take (?n - 2) v) (drop 2 v) @ drop (?n - 2) (replicate ?n 0)"
  have len: "length ?p1 = ?n" using assms(1) by simp
  have p1: "?p1 ! k = v ! k - v ! (k + 2)" if "k < ?n - 2"
    using that by (simp add: nth_append add.commute)
  have row: "dirichlet_row v = ?p1[?n - 2 := (v ! 0 + v ! 1) / 2, ?n - 1 := (v ! 0 - v ! 1) / 2]"
    by (simp add: dirichlet_row_def Let_def py_slice_head2 py_slice_from2)
  consider "k < ?n - 2" | "k = ?n - 2" | "k = ?n - 1"
    using assms by linarith
  then show ?thesis
  proof cases
    case 1
    then show ?thesis unfolding row using p1 len by (simp add: nth_list_update)
  next
    case 2
    then show ?thesis unfolding row using len assms by (simp add: nth_list_update)
  next
    case 3
    then show ?thesis unfolding row using len assms by (auto simp: nth_list_update)
  qed
qed

lemma dirichlet_row_eq:
  assumes "2 \<le> length v"
  shows "dirichlet_row v = map (\<lambda>k.
     if k < length v - 2 then v ! k - v ! (k + 2)
     else if k = length v - 2 then (v ! 0 + v ! 1) / 2
     else (v ! 0 - v ! 1) / 2) [0..<length v]"
  by (rule nth_equalityI) (simp_all add: length_dirichlet_row dirichlet_row_nth [OF assms])

text \<open>
  C5. For \<open>N \<ge> 2\<close> and every array of points \<open>x\<close>, \<^verbatim>\<open>get_vandermonde_basis\<close> of the Dirichlet
  basis applied to the \<open>N\<close>-column Chebyshev Vandermonde matrix of \<open>x\<close> returns the matrix
  whose column \<open>k < N-2\<close> holds \<open>T\<^sub>k - T\<^sub>k\<^sub>+\<^sub>2\<close>, whose column \<open>N-2\<close> holds \<open>(T\<^sub>0 + T\<^sub>1)/2\<close> and
  whose column \<open>N-1\<close> holds \<open>(T\<^sub>0 - T\<^sub>1)/2\<close>, each evaluated at the point of the row.
\<close>

theorem dirichlet_vandermonde_columns:
  assumes "2 \<le> basis_N self"
  shows "and_then (vandermonde self x) ShenDirichlet_get_vandermonde_basis =
    Inr \<lparr>ncols = nat (basis_N self),
         mrows = map (\<lambda>xi. map (\<lambda>k.
           if k < nat (basis_N self) - 2 then chebT k xi - chebT (k + 2) xi
           else if k = nat (basis_N self) - 2 then (chebT 0 xi + chebT 1 xi) / 2
           else (chebT 0 xi - chebT 1 xi) / 2) [0..<nat (basis_N self)]) x\<rparr>"
proof -
  let ?n = "nat (basis_N self)"
  have n: "nat (basis_N self - 1) + 1 = ?n" "2 \<le> ?n" using assms by simp_all
  have v: "vandermonde self x =
      Inr \<lparr>ncols = ?n, mrows = map (\<lambda>xi. map (\<lambda>k. chebT k xi) [0..<?n]) x\<rparr>"
    using assms n by (simp add: vandermonde_def chebvander_def)
  have row: "dirichlet_row (map (\<lambda>k. chebT k xi) [0..<?n]) = map (\<lambda>k.
           if k < ?n - 2 then chebT k xi - chebT (k + 2) xi
           else if k = ?n - 2 then (chebT 0 xi + chebT 1 xi) / 2
           else (chebT 0 xi - chebT 1 xi) / 2) [0..<?n]" for xi
  proof -
    have "2 \<le> length (map (\<lambda>k. chebT k xi) [0..<?n])" using n by simp
    from dirichlet_row_eq [OF this] show ?thesis using n by (auto simp del: chebT.simps)
  qed
  show ?thesis
    unfolding v using n by (simp add: ShenDirichlet_get_vandermonde_basis_def row del: chebT.simps)
qed

theorem dirichlet_vandermonde_columns_witness:
  "and_then (vandermonde \<lparr>basis_N = 4, quad = GC, domain = (- 1, 1),
       vandermonde_scalar_product = (\<lambda>u v. Inr v)\<rparr> [2])
     ShenDirichlet_get_vandermonde_basis =
   Inr \<lparr>ncols = 4, mrows = [[- 6, - 24, 3 / 2, - 1 / 2]]\<rparr>"
  using dirichlet_vandermonde_columns [of "\<lparr>basis_N = 4, quad = GC, domain = (- 1, 1),
       vandermonde_scalar_product = (\<lambda>u v. Inr v)\<rparr>" "[2]"]
  by (simp add: upt_rec numeral_3_eq_3 numeral_2_eq_2)

text \<open>With fewer than two columns the call raises.\<close>

lemma dirichlet_vandermonde_one_column:
  "and_then (vandermonde \<lparr>basis_N = 1, quad = GC, domain = (- 1, 1),
       vandermonde_scalar_product = (\<lambda>u v. Inr v)\<rparr> x)
     ShenDirichlet_get_vandermonde_basis = Inl IndexError"
  by (simp add: vandermonde_def chebvander_def ShenDirichlet_get_vandermonde_basis_def)

text \<open>
  C10. \<^verbatim>\<open>is_scaled\<close> returns \<^verbatim>\<open>False\<close> on every Dirichlet basis, whatever the value of the
  attribute \<^verbatim>\<open>_scaled\<close> that the constructor stores from its parameter \<^verbatim>\<open>scaled\<close>, and so
  also on a basis constructed with \<^verbatim>\<open>scaled=True\<close>.
\<close>

theorem is_scaled_always_False:
  "is_scaled self = False \<and> is_scaled (self\<lparr>dirichlet_scaled := True\<rparr>) = False \<and>
   is_scaled (self\<lparr>dirichlet_scaled := s\<rparr>) = is_scaled self"
  by (simp add: is_scaled_def)

subsection \<open>float64 rounding\<close>

lemma round_half_even_near: "\<bar>of_int (round_half_even m) - m\<bar> \<le> 1 / 2"
  unfolding round_half_even_def Let_def by (auto simp: abs_if) linarith+

lemma round_half_even_of_int: "round_half_even (of_int k) = k"
  by (simp add: round_half_even_def)

lemma floor_log2_binade:
  assumes "2 powi e \<le> \<bar>z\<bar>" and "\<bar>z\<bar> < 2 powi (e + 1)"
  shows "\<lfloor>log 2 \<bar>z\<bar>\<rfloor> = e"
proof -
  have "0 < (2::real) powi e"
    by simp
  then have pos: "0 < \<bar>z\<bar>"
    using assms(1) by linarith
  have "(2::real) powr real_of_int e = 2 powi e" "(2::real) powr (real_of_int e + 1) = 2 powi (e + 1)"
    using powr_real_of_int' [of "2::real" e] powr_real_of_int' [of "2::real" "e + 1"] by simp_all
  then show ?thesis
    using assms pos by (simp add: floor_log_eq_powr_iff)
qed

text \<open>In a binade that is known, \<open>fl64\<close> rounds to a multiple of its spacing.\<close>

lemma fl64_binade:
  assumes "2 powi e \<le> \<bar>z\<bar>" and "\<bar>z\<bar> < 2 powi (e + 1)" and "- 1022 \<le> e"
  shows "fl64 z = (let y = of_int (round_half_even (z / 2 powi (e - 52))) * 2 powi (e - 52)
                   in if 2 ^ 1024 \<le> \<bar>y\<bar> then NonFinite else Fin y)"
proof -
  have "0 < (2::real) powi e"
    by simp
  then have "0 < \<bar>z\<bar>"
    using assms(1) by linarith
  then have "z \<noteq> 0"
    by auto
  then show ?thesis
    using assms(3) by (simp add: fl64_def floor_log2_binade [OF assms(1,2)] Let_def max_def)
qed

text \<open>Every integer multiple \<open>n 2\<^sup>p\<close> of a power of two with \<open>|n| < 2\<^sup>5\<^sup>3\<close> is a float64 value:
  \<open>fl64\<close> leaves it as it is.\<close>

lemma fl64_exact:
  assumes "\<bar>n\<bar> < 2 ^ 53" and "- 1074 \<le> p" and "p \<le> 970"
  shows "fl64 (of_int n * 2 powi p) = Fin (of_int n * 2 powi p)"
proof (cases "n = 0")
  case True
  then show ?thesis by (simp add: fl64_def)
next
  case False
  define z :: real where "z = of_int n * 2 powi p"
  define e where "e = max \<lfloor>log 2 \<bar>z\<bar>\<rfloor> (- 1022)"
  have zpos: "0 < \<bar>z\<bar>"
    using False by (simp add: z_def)
  have zlt: "\<bar>z\<bar> < 2 powi (53 + p)"
  proof -
    have "\<bar>real_of_int n\<bar> < 2 ^ 53"
      using assms(1) by (metis of_int_abs of_int_less_numeral_power_cancel_iff)
    then have "\<bar>z\<bar> < 2 ^ 53 * 2 powi p"
      by (simp add: z_def abs_mult)
    then show ?thesis
      by (simp add: power_int_add)
  qed
  have "log 2 \<bar>z\<bar> < real_of_int (53 + p)"
  proof -
    have "\<bar>z\<bar> < 2 powr real_of_int (53 + p)"
      using zlt powr_real_of_int' [of "2::real" "53 + p"] by simp
    then show ?thesis
      using zpos by (simp add: log_less_iff)
  qed
  then have "\<lfloor>log 2 \<bar>z\<bar>\<rfloor> \<le> 52 + p"
    by linarith
  then have ele: "e - 52 \<le> p"
    using assms(2) by (simp add: e_def)
  define k where "k = nat (p - (e - 52))"
  have pk: "p = (e - 52) + int k"
    using ele by (simp add: k_def)
  have q: "(2::real) powi p = 2 powi (e - 52) * 2 ^ k"
    by (subst pk) (simp add: power_int_add)
  have "z / 2 powi (e - 52) = of_int (n * 2 ^ k)"
    by (simp add: z_def q)
  then have "round_half_even (z / 2 powi (e - 52)) = n * 2 ^ k"
    by (simp only: round_half_even_of_int)
  then have "of_int (round_half_even (z / 2 powi (e - 52))) * 2 powi (e - 52) = z"
    by (simp add: z_def q)
  moreover have "\<bar>z\<bar> < 2 ^ 1024"
  proof -
    have "(2::real) powi (53 + p) \<le> 2 powi 1024"
      using assms(3) by (intro power_int_increasing) simp_all
    then show ?thesis
      using zlt by simp
  qed
  moreover have "z \<noteq> 0"
    using zpos by simp
  ultimately show ?thesis
    unfolding z_def [symmetric] by (simp add: fl64_def e_def [symmetric] Let_def)
qed

text \<open>Below \<open>2\<^sup>k\<close> the spacing of float64 is at most \<open>2\<^sup>k\<^sup>-\<^sup>5\<^sup>3\<close>: rounding moves a number by at
  most \<open>2\<^sup>k\<^sup>-\<^sup>5\<^sup>4\<close>, and does not overflow.\<close>

lemma fl64_near:
  assumes "\<bar>z\<bar> < 2 ^ k" and "k \<le> 1000"
  shows "\<exists>y. fl64 z = Fin y \<and> \<bar>y - z\<bar> \<le> 2 ^ k / 2 ^ 54"
proof (cases "z = 0")
  case True
  then show ?thesis by (simp add: fl64_def)
next
  case False
  define e where "e = max \<lfloor>log 2 \<bar>z\<bar>\<rfloor> (- 1022)"
  define q :: real where "q = 2 powi (e - 52)"
  define y where "y = of_int (round_half_even (z / q)) * q"
  have "log 2 \<bar>z\<bar> < real k"
  proof -
    have "\<bar>z\<bar> < 2 powr real k"
      using assms(1) by (simp add: powr_realpow)
    then show ?thesis
      using False by (simp add: log_less_iff)
  qed
  then have "\<lfloor>log 2 \<bar>z\<bar>\<rfloor> \<le> int k - 1"
    by linarith
  then have "e \<le> int k - 1"
    by (simp add: e_def)
  then have "q \<le> 2 powi (int k - 53)"
    unfolding q_def by (intro power_int_increasing) simp_all
  also have "\<dots> = 2 ^ k / 2 ^ 53"
    by (simp add: power_int_diff)
  finally have qle: "q \<le> 2 ^ k / 2 ^ 53" .
  have qpos: "0 < q"
    by (simp add: q_def)
  have "y - z = (of_int (round_half_even (z / q)) - z / q) * q"
    using qpos by (simp add: y_def left_diff_distrib)
  then have "\<bar>y - z\<bar> = \<bar>of_int (round_half_even (z / q)) - z / q\<bar> * q"
    using qpos by (simp add: abs_mult)
  also have "\<dots> \<le> 1 / 2 * q"
    using round_half_even_near [of "z / q"] qpos by (intro mult_right_mono) simp_all
  also have "\<dots> \<le> 2 ^ k / 2 ^ 54"
    using qle by simp
  finally have near: "\<bar>y - z\<bar> \<le> 2 ^ k / 2 ^ 54" .
  have pk: "(2::real) ^ k \<le> 2 ^ 1000"
    using assms(2) by (intro power_increasing) simp_all
  have "(2::real) ^ k / 2 ^ 54 \<le> 2 ^ k"
    by (simp add: field_simps)
  then have "\<bar>y\<bar> < 2 ^ k + 2 ^ k"
    using near assms(1) by linarith
  also have "\<dots> \<le> 2 ^ 1000 + 2 ^ 1000"
    using pk by linarith
  also have "\<dots> < 2 ^ 1024"
    by simp
  finally have "\<not> 2 ^ 1024 \<le> \<bar>y\<bar>"
    by simp
  then have "fl64 z = Fin y"
    using False by (simp add: fl64_def e_def [symmetric] q_def [symmetric] y_def [symmetric] Let_def)
  then show ?thesis
    using near by auto
qed

lemma float_op_near:
  assumes "- (2 ^ k) < f x y" and "f x y < 2 ^ k" and "k \<le> 1000"
  shows "\<exists>r. float_op f (Fin x) (Fin y) = Fin r \<and>
    f x y - 2 ^ k / 2 ^ 54 \<le> r \<and> r \<le> f x y + 2 ^ k / 2 ^ 54"
proof -
  have "\<bar>f x y\<bar> < 2 ^ k"
    using assms(1,2) by simp
  from fl64_near [OF this assms(3)] obtain r where
    r: "fl64 (f x y) = Fin r" "\<bar>r - f x y\<bar> \<le> 2 ^ k / 2 ^ 54"
    by blast
  have "float_op f (Fin x) (Fin y) = Fin r"
    by (simp add: float_op_def r(1))
  moreover have "f x y - 2 ^ k / 2 ^ 54 \<le> r" and "r \<le> f x y + 2 ^ k / 2 ^ 54"
    using r(2) by linarith+
  ultimately show ?thesis
    by blast
qed

lemma fadd_near:
  "- (2 ^ k) < x + y \<Longrightarrow> x + y < 2 ^ k \<Longrightarrow> k \<le> 1000 \<Longrightarrow>
    \<exists>r. fadd (Fin x) (Fin y) = Fin r \<and> x + y - 2 ^ k / 2 ^ 54 \<le> r \<and> r \<le> x + y + 2 ^ k / 2 ^ 54"
  unfolding fadd_def by (rule float_op_near)

lemma fsub_near:
  "- (2 ^ k) < x - y \<Longrightarrow> x - y < 2 ^ k \<Longrightarrow> k \<le> 1000 \<Longrightarrow>
    \<exists>r. fsub (Fin x) (Fin y) = Fin r \<and> x - y - 2 ^ k / 2 ^ 54 \<le> r \<and> r \<le> x - y + 2 ^ k / 2 ^ 54"
  unfolding fsub_def by (rule float_op_near)

lemma fmul_near:
  "- (2 ^ k) < x * y \<Longrightarrow> x * y < 2 ^ k \<Longrightarrow> k \<le> 1000 \<Longrightarrow>
    \<exists>r. fmul (Fin x) (Fin y) = Fin r \<and> x * y - 2 ^ k / 2 ^ 54 \<le> r \<and> r \<le> x * y + 2 ^ k / 2 ^ 54"
  unfolding fmul_def by (rule float_op_near)

lemma fl64_small_values:
  "fl64 0 = Fin 0" "fl64 1 = Fin 1" "fl64 2 = Fin 2" "fl64 (- 2) = Fin (- 2)"
  using fl64_exact [of 0 0] fl64_exact [of 1 0] fl64_exact [of 2 0] fl64_exact [of "- 2" 0]
  by simp_all

subsection \<open>float64 values met at the boundary\<close>

lemma fl64_exact_values:
  "fl64 (- 9007199254740990) = Fin (- 9007199254740990)"
  "fl64 (- 4503599627370502) = Fin (- 4503599627370502)"
  "fl64 (- 4503599627370495) = Fin (- 4503599627370495)"
  "fl64 (- (7 / 2)) = Fin (- (7 / 2))"
  "fl64 (- 3) = Fin (- 3)"
  "fl64 (- 2) = Fin (- 2)"
  "fl64 (- (3 / 2)) = Fin (- (3 / 2))"
  "fl64 (- 1) = Fin (- 1)"
  "fl64 (- (1 / 2)) = Fin (- (1 / 2))"
  "fl64 (1 / 2) = Fin (1 / 2)"
  "fl64 1 = Fin 1"
  "fl64 (3 / 2) = Fin (3 / 2)"
  "fl64 2 = Fin 2"
  "fl64 3 = Fin 3"
  "fl64 (7 / 2) = Fin (7 / 2)"
  "fl64 7 = Fin 7"
  "fl64 4503599627370495 = Fin 4503599627370495"
  "fl64 (9007199254740991 / 2) = Fin (9007199254740991 / 2)"
  "fl64 4503599627370497 = Fin 4503599627370497"
  "fl64 4503599627370498 = Fin 4503599627370498"
  "fl64 4503599627370499 = Fin 4503599627370499"
  "fl64 9007199254740992 = Fin 9007199254740992"
  "fl64 9007199254741000 = Fin 9007199254741000"
  "fl64 9007199254741004 = Fin 9007199254741004"
  using fl64_exact [of "- 9007199254740990" "0"]
    fl64_exact [of "- 4503599627370502" "0"]
    fl64_exact [of "- 4503599627370495" "0"]
    fl64_exact [of "- 7" "- 1"]
    fl64_exact [of "- 3" "0"]
    fl64_exact [of "- 2" "0"]
    fl64_exact [of "- 3" "- 1"]
    fl64_exact [of "- 1" "0"]
    fl64_exact [of "- 1" "- 1"]
    fl64_exact [of "1" "- 1"]
    fl64_exact [of "1" "0"]
    fl64_exact [of "3" "- 1"]
    fl64_exact [of "2" "0"]
    fl64_exact [of "3" "0"]
    fl64_exact [of "7" "- 1"]
    fl64_exact [of "7" "0"]
    fl64_exact [of "4503599627370495" "0"]
    fl64_exact [of "9007199254740991" "- 1"]
    fl64_exact [of "4503599627370497" "0"]
    fl64_exact [of "4503599627370498" "0"]
    fl64_exact [of "4503599627370499" "0"]
    fl64_exact [of "4503599627370496" "1"]
    fl64_exact [of "4503599627370500" "1"]
    fl64_exact [of "4503599627370502" "1"]
  by simp_all

lemma fl64_rounded_1: "fl64 (- (18014398509481983 / 2)) = Fin (- 9007199254740992)"
  using fl64_binade [of 52 "- (18014398509481983 / 2)"]
  by (simp add: round_half_even_def Let_def)

lemma fl64_rounded_2: "fl64 (9007199254740993 / 2) = Fin 4503599627370496"
  using fl64_binade [of 52 "9007199254740993 / 2"]
  by (simp add: round_half_even_def Let_def)

lemma fl64_rounded_3: "fl64 (9007199254740995 / 2) = Fin 4503599627370498"
  using fl64_binade [of 52 "9007199254740995 / 2"]
  by (simp add: round_half_even_def Let_def)

lemma fl64_rounded_4: "fl64 (9007199254741005 / 2) = Fin 4503599627370502"
  using fl64_binade [of 52 "9007199254741005 / 2"]
  by (simp add: round_half_even_def Let_def)

lemma fl64_rounded_5: "fl64 (18014398509482001 / 2) = Fin 9007199254741000"
  using fl64_binade [of 53 "18014398509482001 / 2"]
  by (simp add: round_half_even_def Let_def)

subsection \<open>Evaluation of a Dirichlet expansion at the boundary\<close>

lemma list6:
  assumes "length fk = 6"
  shows "fk = [fk ! 0, fk ! 1, fk ! 2, fk ! 3, fk ! 4, fk ! 5]"
  using assms
  by (intro nth_equalityI) (auto simp: nth_Cons' less_Suc_eq numeral_eq_Suc)

lemma map2_same_map: "map2 f (map g xs) (map h xs) = map (\<lambda>x. f (g x) (h x)) xs"
  by (induction xs) simp_all

text \<open>With six coefficients, \<^verbatim>\<open>eval\<close> is, at every point, the difference of the Clenshaw sum
  of the four leading coefficients and of the Clenshaw sum of the same coefficients
  shifted by two places, plus the boundary term.\<close>

lemma ShenDirichlet_eval_six:
  "ShenDirichlet_eval xs [a, b, c, d, e, f] =
     Inr (map (\<lambda>x. fadd (fsub (chebval1 x [a, b, c, d]) (chebval1 x [Fin 0, Fin 0, a, b, c, d]))
                     (fmul (Fin (1 / 2)) (fadd (fmul f (fadd (Fin 1) x)) (fmul e (fsub (Fin 1) x)))))
            xs)"
  by (simp add: ShenDirichlet_eval_def py_slice_head2 chebval_def slice_assign_def slice_lo_def
      slice_hi_def slice_bound_nonneg broadcast_to_def work_def np_binop_def get_at_def
      py_index_def Let_def numeral_eq_Suc map2_same_map)

text \<open>
  The two Clenshaw sums agree in exact arithmetic at \<open>x = 1\<close> and \<open>x = -1\<close>, but they round
  at different places: twelve operations separate them. For coefficients of magnitude
  at most \<open>10\<^sup>4\<close> the results of these operations are below \<open>2\<^sup>1\<^sup>6\<close>, \<open>2\<^sup>1\<^sup>7\<close> or \<open>2\<^sup>1\<^sup>8\<close>, so
  that each rounding moves its value by at most \<open>2\<^sup>-\<^sup>3\<^sup>8\<close>, \<open>2\<^sup>-\<^sup>3\<^sup>7\<close> or \<open>2\<^sup>-\<^sup>3\<^sup>6\<close>; together they
  move the difference by less than \<open>10\<^sup>-\<^sup>1\<^sup>0\<close>.
\<close>

lemma dirichlet_boundary_point_pos:
  assumes "\<bar>a\<bar> \<le> 10000" and "\<bar>b\<bar> \<le> 10000" and "\<bar>c\<bar> \<le> 10000" and "\<bar>d\<bar> \<le> 10000"
  shows "\<exists>v. fadd (fsub (chebval1 (Fin 1) [Fin a, Fin b, Fin c, Fin d])
                       (chebval1 (Fin 1) [Fin 0, Fin 0, Fin a, Fin b, Fin c, Fin d]))
                 (fmul (Fin (1 / 2)) (fadd (fmul (Fin 0) (fadd (Fin 1) (Fin 1)))
                                          (fmul (Fin 0) (fsub (Fin 1) (Fin 1))))) = Fin v
             \<and> \<bar>v\<bar> \<le> 1 / 10 ^ 10"
proof -
  define u :: real where "u = 1 / 2 ^ 54"
  have u: "0 \<le> u" "u \<le> 1 / 10000000000000000" "1441794 * u \<le> 1 / 10000000000"
    by (simp_all add: u_def)
  have inp: "- 10000 \<le> a" "a \<le> 10000" "- 10000 \<le> b" "b \<le> 10000"
    "- 10000 \<le> c" "c \<le> 10000" "- 10000 \<le> d" "d \<le> 10000"
    using assms by linarith+
  have x2: "fmul (Fin 2) (Fin 1) = Fin 2"
    by (simp add: fmul_def float_op_def fl64_small_values)
  have tl: "fmul (Fin (1 / 2)) (fadd (fmul (Fin 0) (fadd (Fin 1) (Fin 1)))
      (fmul (Fin 0) (fsub (Fin 1) (Fin 1)))) = Fin 0"
    by (simp add: fadd_def fsub_def fmul_def float_op_def fl64_small_values)
  have "- 65536 < b - d" and "b - d < 65536"
    using u inp by linarith+
  then have "- (2 ^ 16) < b - d" and "b - d < 2 ^ 16"
    by simp_all
  from fsub_near [OF this] obtain c01 where c01:
    "fsub (Fin b) (Fin d) = Fin c01" "b - d - 65536 * u \<le> c01" "c01 \<le> b - d + 65536 * u"
    unfolding u_def by auto
  have c01_i: "b - d - 65536 * u \<le> c01" "c01 \<le> b - d + 65536 * u"
    using c01(2,3) by linarith+
  have "- 65536 < d * 2" and "d * 2 < 65536"
    using u inp by linarith+
  then have "- (2 ^ 16) < d * 2" and "d * 2 < 2 ^ 16"
    by simp_all
  from fmul_near [OF this] obtain t0 where t0:
    "fmul (Fin d) (Fin 2) = Fin t0" "d * 2 - 65536 * u \<le> t0" "t0 \<le> d * 2 + 65536 * u"
    unfolding u_def by auto
  have t0_i: "2 * d - 65536 * u \<le> t0" "t0 \<le> 2 * d + 65536 * u"
    using t0(2,3) by linarith+
  have "- 65536 < c + t0" and "c + t0 < 65536"
    using u inp t0_i by linarith+
  then have "- (2 ^ 16) < c + t0" and "c + t0 < 2 ^ 16"
    by simp_all
  from fadd_near [OF this] obtain c11 where c11:
    "fadd (Fin c) (Fin t0) = Fin c11" "c + t0 - 65536 * u \<le> c11" "c11 \<le> c + t0 + 65536 * u"
    unfolding u_def by auto
  have c11_i: "c + 2 * d - 131072 * u \<le> c11" "c11 \<le> c + 2 * d + 131072 * u"
    using c11(2,3) t0_i by linarith+
  have "- 65536 < a - c11" and "a - c11 < 65536"
    using u inp c11_i by linarith+
  then have "- (2 ^ 16) < a - c11" and "a - c11 < 2 ^ 16"
    by simp_all
  from fsub_near [OF this] obtain P where P:
    "fsub (Fin a) (Fin c11) = Fin P" "a - c11 - 65536 * u \<le> P" "P \<le> a - c11 + 65536 * u"
    unfolding u_def by auto
  have P_i: "a - c - 2 * d - 196608 * u \<le> P" "P \<le> a - c - 2 * d + 196608 * u"
    using P(2,3) c11_i by linarith+
  have "- 65536 < c11 * 2" and "c11 * 2 < 65536"
    using u inp c11_i by linarith+
  then have "- (2 ^ 16) < c11 * 2" and "c11 * 2 < 2 ^ 16"
    by simp_all
  from fmul_near [OF this] obtain t1 where t1:
    "fmul (Fin c11) (Fin 2) = Fin t1" "c11 * 2 - 65536 * u \<le> t1" "t1 \<le> c11 * 2 + 65536 * u"
    unfolding u_def by auto
  have t1_i: "2 * c + 4 * d - 327680 * u \<le> t1" "t1 \<le> 2 * c + 4 * d + 327680 * u"
    using t1(2,3) c11_i by linarith+
  have "- 65536 < c01 + t1" and "c01 + t1 < 65536"
    using u inp c01_i t1_i by linarith+
  then have "- (2 ^ 16) < c01 + t1" and "c01 + t1 < 2 ^ 16"
    by simp_all
  from fadd_near [OF this] obtain Q where Q:
    "fadd (Fin c01) (Fin t1) = Fin Q" "c01 + t1 - 65536 * u \<le> Q" "Q \<le> c01 + t1 + 65536 * u"
    unfolding u_def by auto
  have Q_i: "b + 2 * c + 3 * d - 458752 * u \<le> Q" "Q \<le> b + 2 * c + 3 * d + 458752 * u"
    using Q(2,3) c01_i t1_i by linarith+
  have "- 65536 < Q * 1" and "Q * 1 < 65536"
    using u inp Q_i by linarith+
  then have "- (2 ^ 16) < Q * 1" and "Q * 1 < 2 ^ 16"
    by simp_all
  from fmul_near [OF this] obtain m1 where m1:
    "fmul (Fin Q) (Fin 1) = Fin m1" "Q * 1 - 65536 * u \<le> m1" "m1 \<le> Q * 1 + 65536 * u"
    unfolding u_def by auto
  have m1_i: "b + 2 * c + 3 * d - 524288 * u \<le> m1" "m1 \<le> b + 2 * c + 3 * d + 524288 * u"
    using m1(2,3) Q_i by linarith+
  have "- 65536 < P + m1" and "P + m1 < 65536"
    using u inp P_i m1_i by linarith+
  then have "- (2 ^ 16) < P + m1" and "P + m1 < 2 ^ 16"
    by simp_all
  from fadd_near [OF this] obtain A where A:
    "fadd (Fin P) (Fin m1) = Fin A" "P + m1 - 65536 * u \<le> A" "A \<le> P + m1 + 65536 * u"
    unfolding u_def by auto
  have A_i: "a + b + c + d - 786432 * u \<le> A" "A \<le> a + b + c + d + 786432 * u"
    using A(2,3) P_i m1_i by linarith+
  have "- 65536 < 0 - Q" and "0 - Q < 65536"
    using u inp Q_i by linarith+
  then have "- (2 ^ 16) < 0 - Q" and "0 - Q < 2 ^ 16"
    by simp_all
  from fsub_near [OF this] obtain n1 where n1:
    "fsub (Fin 0) (Fin Q) = Fin n1" "0 - Q - 65536 * u \<le> n1" "n1 \<le> 0 - Q + 65536 * u"
    unfolding u_def by auto
  have n1_i: "- b - 2 * c - 3 * d - 524288 * u \<le> n1" "n1 \<le> - b - 2 * c - 3 * d + 524288 * u"
    using n1(2,3) Q_i by linarith+
  have "- 131072 < Q * 2" and "Q * 2 < 131072"
    using u inp Q_i by linarith+
  then have "- (2 ^ 17) < Q * 2" and "Q * 2 < 2 ^ 17"
    by simp_all
  from fmul_near [OF this] obtain t where t:
    "fmul (Fin Q) (Fin 2) = Fin t" "Q * 2 - 131072 * u \<le> t" "t \<le> Q * 2 + 131072 * u"
    unfolding u_def by auto
  have t_i: "2 * b + 4 * c + 6 * d - 1048576 * u \<le> t" "t \<le> 2 * b + 4 * c + 6 * d + 1048576 * u"
    using t(2,3) Q_i by linarith+
  have "- 131072 < P + t" and "P + t < 131072"
    using u inp P_i t_i by linarith+
  then have "- (2 ^ 17) < P + t" and "P + t < 2 ^ 17"
    by simp_all
  from fadd_near [OF this] obtain R where R:
    "fadd (Fin P) (Fin t) = Fin R" "P + t - 131072 * u \<le> R" "R \<le> P + t + 131072 * u"
    unfolding u_def by auto
  have R_i: "a + 2 * b + 3 * c + 4 * d - 1376256 * u \<le> R" "R \<le> a + 2 * b + 3 * c + 4 * d + 1376256 * u"
    using R(2,3) P_i t_i by linarith+
  have "- 131072 < 0 - R" and "0 - R < 131072"
    using u inp R_i by linarith+
  then have "- (2 ^ 17) < 0 - R" and "0 - R < 2 ^ 17"
    by simp_all
  from fsub_near [OF this] obtain n2 where n2:
    "fsub (Fin 0) (Fin R) = Fin n2" "0 - R - 131072 * u \<le> n2" "n2 \<le> 0 - R + 131072 * u"
    unfolding u_def by auto
  have n2_i: "- a - 2 * b - 3 * c - 4 * d - 1507328 * u \<le> n2" "n2 \<le> - a - 2 * b - 3 * c - 4 * d + 1507328 * u"
    using n2(2,3) R_i by linarith+
  have "- 262144 < R * 2" and "R * 2 < 262144"
    using u inp R_i by linarith+
  then have "- (2 ^ 18) < R * 2" and "R * 2 < 2 ^ 18"
    by simp_all
  from fmul_near [OF this] obtain t2 where t2:
    "fmul (Fin R) (Fin 2) = Fin t2" "R * 2 - 262144 * u \<le> t2" "t2 \<le> R * 2 + 262144 * u"
    unfolding u_def by auto
  have t2_i: "2 * a + 4 * b + 6 * c + 8 * d - 3014656 * u \<le> t2" "t2 \<le> 2 * a + 4 * b + 6 * c + 8 * d + 3014656 * u"
    using t2(2,3) R_i by linarith+
  have "- 262144 < n1 + t2" and "n1 + t2 < 262144"
    using u inp n1_i t2_i by linarith+
  then have "- (2 ^ 18) < n1 + t2" and "n1 + t2 < 2 ^ 18"
    by simp_all
  from fadd_near [OF this] obtain SS where SS:
    "fadd (Fin n1) (Fin t2) = Fin SS" "n1 + t2 - 262144 * u \<le> SS" "SS \<le> n1 + t2 + 262144 * u"
    unfolding u_def by auto
  have SS_i: "2 * a + 3 * b + 4 * c + 5 * d - 3801088 * u \<le> SS" "SS \<le> 2 * a + 3 * b + 4 * c + 5 * d + 3801088 * u"
    using SS(2,3) n1_i t2_i by linarith+
  have "- 262144 < SS * 1" and "SS * 1 < 262144"
    using u inp SS_i by linarith+
  then have "- (2 ^ 18) < SS * 1" and "SS * 1 < 2 ^ 18"
    by simp_all
  from fmul_near [OF this] obtain m2 where m2:
    "fmul (Fin SS) (Fin 1) = Fin m2" "SS * 1 - 262144 * u \<le> m2" "m2 \<le> SS * 1 + 262144 * u"
    unfolding u_def by auto
  have m2_i: "2 * a + 3 * b + 4 * c + 5 * d - 4063232 * u \<le> m2" "m2 \<le> 2 * a + 3 * b + 4 * c + 5 * d + 4063232 * u"
    using m2(2,3) SS_i by linarith+
  have "- 65536 < n2 + m2" and "n2 + m2 < 65536"
    using u inp n2_i m2_i by linarith+
  then have "- (2 ^ 16) < n2 + m2" and "n2 + m2 < 2 ^ 16"
    by simp_all
  from fadd_near [OF this] obtain B where B:
    "fadd (Fin n2) (Fin m2) = Fin B" "n2 + m2 - 65536 * u \<le> B" "B \<le> n2 + m2 + 65536 * u"
    unfolding u_def by auto
  have B_i: "a + b + c + d - 5636096 * u \<le> B" "B \<le> a + b + c + d + 5636096 * u"
    using B(2,3) n2_i m2_i by linarith+
  have "- 1 < A - B" and "A - B < 1"
    using u m1(2,3) A(2,3) n1(2,3) t(2,3) R(2,3) n2(2,3) t2(2,3) SS(2,3) m2(2,3) B(2,3) by linarith+
  then have "- (2 ^ 0) < A - B" and "A - B < 2 ^ 0"
    by simp_all
  from fsub_near [OF this] obtain o1 where o1:
    "fsub (Fin A) (Fin B) = Fin o1" "A - B - u \<le> o1" "o1 \<le> A - B + u"
    unfolding u_def by auto
  have "- 1 < o1 + 0" and "o1 + 0 < 1"
    using u m1(2,3) A(2,3) n1(2,3) t(2,3) R(2,3) n2(2,3) t2(2,3) SS(2,3) m2(2,3) B(2,3) o1(2,3) by linarith+
  then have "- (2 ^ 0) < o1 + 0" and "o1 + 0 < 2 ^ 0"
    by simp_all
  from fadd_near [OF this] obtain v where v:
    "fadd (Fin o1) (Fin 0) = Fin v" "o1 + 0 - u \<le> v" "v \<le> o1 + 0 + u"
    unfolding u_def by auto
  have "fadd (fsub (chebval1 (Fin 1) [Fin a, Fin b, Fin c, Fin d])
      (chebval1 (Fin 1) [Fin 0, Fin 0, Fin a, Fin b, Fin c, Fin d]))
      (fmul (Fin (1 / 2)) (fadd (fmul (Fin 0) (fadd (Fin 1) (Fin 1)))
        (fmul (Fin 0) (fsub (Fin 1) (Fin 1))))) = Fin v"
    by (simp add: chebval1_def clenshaw_step_def Let_def x2 tl
        c01(1) t0(1) c11(1) P(1) t1(1) Q(1) m1(1) A(1) n1(1) t(1) R(1) n2(1) t2(1) SS(1) m2(1) B(1) o1(1) v(1))
  moreover have "- (1 / 10000000000) \<le> v" and "v \<le> 1 / 10000000000"
    using m1(2,3) A(2,3) n1(2,3) t(2,3) R(2,3) n2(2,3) t2(2,3) SS(2,3) m2(2,3) B(2,3) o1(2,3) v(2,3) u by linarith+
  ultimately show ?thesis
    by (intro exI [of _ v]) (simp add: abs_le_iff)
qed

lemma dirichlet_boundary_point_neg:
  assumes "\<bar>a\<bar> \<le> 10000" and "\<bar>b\<bar> \<le> 10000" and "\<bar>c\<bar> \<le> 10000" and "\<bar>d\<bar> \<le> 10000"
  shows "\<exists>v. fadd (fsub (chebval1 (Fin (- 1)) [Fin a, Fin b, Fin c, Fin d])
                       (chebval1 (Fin (- 1)) [Fin 0, Fin 0, Fin a, Fin b, Fin c, Fin d]))
                 (fmul (Fin (1 / 2)) (fadd (fmul (Fin 0) (fadd (Fin 1) (Fin (- 1))))
                                          (fmul (Fin 0) (fsub (Fin 1) (Fin (- 1)))))) = Fin v
             \<and> \<bar>v\<bar> \<le> 1 / 10 ^ 10"
proof -
  define u :: real where "u = 1 / 2 ^ 54"
  have u: "0 \<le> u" "u \<le> 1 / 10000000000000000" "1441794 * u \<le> 1 / 10000000000"
    by (simp_all add: u_def)
  have inp: "- 10000 \<le> a" "a \<le> 10000" "- 10000 \<le> b" "b \<le> 10000"
    "- 10000 \<le> c" "c \<le> 10000" "- 10000 \<le> d" "d \<le> 10000"
    using assms by linarith+
  have x2: "fmul (Fin 2) (Fin (- 1)) = Fin (- 2)"
    by (simp add: fmul_def float_op_def fl64_small_values)
  have tl: "fmul (Fin (1 / 2)) (fadd (fmul (Fin 0) (fadd (Fin 1) (Fin (- 1))))
      (fmul (Fin 0) (fsub (Fin 1) (Fin (- 1))))) = Fin 0"
    by (simp add: fadd_def fsub_def fmul_def float_op_def fl64_small_values)
  have "- 65536 < b - d" and "b - d < 65536"
    using u inp by linarith+
  then have "- (2 ^ 16) < b - d" and "b - d < 2 ^ 16"
    by simp_all
  from fsub_near [OF this] obtain c01 where c01:
    "fsub (Fin b) (Fin d) = Fin c01" "b - d - 65536 * u \<le> c01" "c01 \<le> b - d + 65536 * u"
    unfolding u_def by auto
  have c01_i: "b - d - 65536 * u \<le> c01" "c01 \<le> b - d + 65536 * u"
    using c01(2,3) by linarith+
  have "- 65536 < d * (- 2)" and "d * (- 2) < 65536"
    using u inp by linarith+
  then have "- (2 ^ 16) < d * (- 2)" and "d * (- 2) < 2 ^ 16"
    by simp_all
  from fmul_near [OF this] obtain t0 where t0:
    "fmul (Fin d) (Fin (- 2)) = Fin t0" "d * (- 2) - 65536 * u \<le> t0" "t0 \<le> d * (- 2) + 65536 * u"
    unfolding u_def by auto
  have t0_i: "- 2 * d - 65536 * u \<le> t0" "t0 \<le> - 2 * d + 65536 * u"
    using t0(2,3) by linarith+
  have "- 65536 < c + t0" and "c + t0 < 65536"
    using u inp t0_i by linarith+
  then have "- (2 ^ 16) < c + t0" and "c + t0 < 2 ^ 16"
    by simp_all
  from fadd_near [OF this] obtain c11 where c11:
    "fadd (Fin c) (Fin t0) = Fin c11" "c + t0 - 65536 * u \<le> c11" "c11 \<le> c + t0 + 65536 * u"
    unfolding u_def by auto
  have c11_i: "c - 2 * d - 131072 * u \<le> c11" "c11 \<le> c - 2 * d + 131072 * u"
    using c11(2,3) t0_i by linarith+
  have "- 65536 < a - c11" and "a - c11 < 65536"
    using u inp c11_i by linarith+
  then have "- (2 ^ 16) < a - c11" and "a - c11 < 2 ^ 16"
    by simp_all
  from fsub_near [OF this] obtain P where P:
    "fsub (Fin a) (Fin c11) = Fin P" "a - c11 - 65536 * u \<le> P" "P \<le> a - c11 + 65536 * u"
    unfolding u_def by auto
  have P_i: "a - c + 2 * d - 196608 * u \<le> P" "P \<le> a - c + 2 * d + 196608 * u"
    using P(2,3) c11_i by linarith+
  have "- 65536 < c11 * (- 2)" and "c11 * (- 2) < 65536"
    using u inp c11_i by linarith+
  then have "- (2 ^ 16) < c11 * (- 2)" and "c11 * (- 2) < 2 ^ 16"
    by simp_all
  from fmul_near [OF this] obtain t1 where t1:
    "fmul (Fin c11) (Fin (- 2)) = Fin t1" "c11 * (- 2) - 65536 * u \<le> t1" "t1 \<le> c11 * (- 2) + 65536 * u"
    unfolding u_def by auto
  have t1_i: "- 2 * c + 4 * d - 327680 * u \<le> t1" "t1 \<le> - 2 * c + 4 * d + 327680 * u"
    using t1(2,3) c11_i by linarith+
  have "- 65536 < c01 + t1" and "c01 + t1 < 65536"
    using u inp c01_i t1_i by linarith+
  then have "- (2 ^ 16) < c01 + t1" and "c01 + t1 < 2 ^ 16"
    by simp_all
  from fadd_near [OF this] obtain Q where Q:
    "fadd (Fin c01) (Fin t1) = Fin Q" "c01 + t1 - 65536 * u \<le> Q" "Q \<le> c01 + t1 + 65536 * u"
    unfolding u_def by auto
  have Q_i: "b - 2 * c + 3 * d - 458752 * u \<le> Q" "Q \<le> b - 2 * c + 3 * d + 458752 * u"
    using Q(2,3) c01_i t1_i by linarith+
  have "- 65536 < Q * (- 1)" and "Q * (- 1) < 65536"
    using u inp Q_i by linarith+
  then have "- (2 ^ 16) < Q * (- 1)" and "Q * (- 1) < 2 ^ 16"
    by simp_all
  from fmul_near [OF this] obtain m1 where m1:
    "fmul (Fin Q) (Fin (- 1)) = Fin m1" "Q * (- 1) - 65536 * u \<le> m1" "m1 \<le> Q * (- 1) + 65536 * u"
    unfolding u_def by auto
  have m1_i: "- b + 2 * c - 3 * d - 524288 * u \<le> m1" "m1 \<le> - b + 2 * c - 3 * d + 524288 * u"
    using m1(2,3) Q_i by linarith+
  have "- 65536 < P + m1" and "P + m1 < 65536"
    using u inp P_i m1_i by linarith+
  then have "- (2 ^ 16) < P + m1" and "P + m1 < 2 ^ 16"
    by simp_all
  from fadd_near [OF this] obtain A where A:
    "fadd (Fin P) (Fin m1) = Fin A" "P + m1 - 65536 * u \<le> A" "A \<le> P + m1 + 65536 * u"
    unfolding u_def by auto
  have A_i: "a - b + c - d - 786432 * u \<le> A" "A \<le> a - b + c - d + 786432 * u"
    using A(2,3) P_i m1_i by linarith+
  have "- 65536 < 0 - Q" and "0 - Q < 65536"
    using u inp Q_i by linarith+
  then have "- (2 ^ 16) < 0 - Q" and "0 - Q < 2 ^ 16"
    by simp_all
  from fsub_near [OF this] obtain n1 where n1:
    "fsub (Fin 0) (Fin Q) = Fin n1" "0 - Q - 65536 * u \<le> n1" "n1 \<le> 0 - Q + 65536 * u"
    unfolding u_def by auto
  have n1_i: "- b + 2 * c - 3 * d - 524288 * u \<le> n1" "n1 \<le> - b + 2 * c - 3 * d + 524288 * u"
    using n1(2,3) Q_i by linarith+
  have "- 131072 < Q * (- 2)" and "Q * (- 2) < 131072"
    using u inp Q_i by linarith+
  then have "- (2 ^ 17) < Q * (- 2)" and "Q * (- 2) < 2 ^ 17"
    by simp_all
  from fmul_near [OF this] obtain t where t:
    "fmul (Fin Q) (Fin (- 2)) = Fin t" "Q * (- 2) - 131072 * u \<le> t" "t \<le> Q * (- 2) + 131072 * u"
    unfolding u_def by auto
  have t_i: "- 2 * b + 4 * c - 6 * d - 1048576 * u \<le> t" "t \<le> - 2 * b + 4 * c - 6 * d + 1048576 * u"
    using t(2,3) Q_i by linarith+
  have "- 131072 < P + t" and "P + t < 131072"
    using u inp P_i t_i by linarith+
  then have "- (2 ^ 17) < P + t" and "P + t < 2 ^ 17"
    by simp_all
  from fadd_near [OF this] obtain R where R:
    "fadd (Fin P) (Fin t) = Fin R" "P + t - 131072 * u \<le> R" "R \<le> P + t + 131072 * u"
    unfolding u_def by auto
  have R_i: "a - 2 * b + 3 * c - 4 * d - 1376256 * u \<le> R" "R \<le> a - 2 * b + 3 * c - 4 * d + 1376256 * u"
    using R(2,3) P_i t_i by linarith+
  have "- 131072 < 0 - R" and "0 - R < 131072"
    using u inp R_i by linarith+
  then have "- (2 ^ 17) < 0 - R" and "0 - R < 2 ^ 17"
    by simp_all
  from fsub_near [OF this] obtain n2 where n2:
    "fsub (Fin 0) (Fin R) = Fin n2" "0 - R - 131072 * u \<le> n2" "n2 \<le> 0 - R + 131072 * u"
    unfolding u_def by auto
  have n2_i: "- a + 2 * b - 3 * c + 4 * d - 1507328 * u \<le> n2" "n2 \<le> - a + 2 * b - 3 * c + 4 * d + 1507328 * u"
    using n2(2,3) R_i by linarith+
  have "- 262144 < R * (- 2)" and "R * (- 2) < 262144"
    using u inp R_i by linarith+
  then have "- (2 ^ 18) < R * (- 2)" and "R * (- 2) < 2 ^ 18"
    by simp_all
  from fmul_near [OF this] obtain t2 where t2:
    "fmul (Fin R) (Fin (- 2)) = Fin t2" "R * (- 2) - 262144 * u \<le> t2" "t2 \<le> R * (- 2) + 262144 * u"
    unfolding u_def by auto
  have t2_i: "- 2 * a + 4 * b - 6 * c + 8 * d - 3014656 * u \<le> t2" "t2 \<le> - 2 * a + 4 * b - 6 * c + 8 * d + 3014656 * u"
    using t2(2,3) R_i by linarith+
  have "- 262144 < n1 + t2" and "n1 + t2 < 262144"
    using u inp n1_i t2_i by linarith+
  then have "- (2 ^ 18) < n1 + t2" and "n1 + t2 < 2 ^ 18"
    by simp_all
  from fadd_near [OF this] obtain SS where SS:
    "fadd (Fin n1) (Fin t2) = Fin SS" "n1 + t2 - 262144 * u \<le> SS" "SS \<le> n1 + t2 + 262144 * u"
    unfolding u_def by auto
  have SS_i: "- 2 * a + 3 * b - 4 * c + 5 * d - 3801088 * u \<le> SS" "SS \<le> - 2 * a + 3 * b - 4 * c + 5 * d + 3801088 * u"
    using SS(2,3) n1_i t2_i by linarith+
  have "- 262144 < SS * (- 1)" and "SS * (- 1) < 262144"
    using u inp SS_i by linarith+
  then have "- (2 ^ 18) < SS * (- 1)" and "SS * (- 1) < 2 ^ 18"
    by simp_all
  from fmul_near [OF this] obtain m2 where m2:
    "fmul (Fin SS) (Fin (- 1)) = Fin m2" "SS * (- 1) - 262144 * u \<le> m2" "m2 \<le> SS * (- 1) + 262144 * u"
    unfolding u_def by auto
  have m2_i: "2 * a - 3 * b + 4 * c - 5 * d - 4063232 * u \<le> m2" "m2 \<le> 2 * a - 3 * b + 4 * c - 5 * d + 4063232 * u"
    using m2(2,3) SS_i by linarith+
  have "- 65536 < n2 + m2" and "n2 + m2 < 65536"
    using u inp n2_i m2_i by linarith+
  then have "- (2 ^ 16) < n2 + m2" and "n2 + m2 < 2 ^ 16"
    by simp_all
  from fadd_near [OF this] obtain B where B:
    "fadd (Fin n2) (Fin m2) = Fin B" "n2 + m2 - 65536 * u \<le> B" "B \<le> n2 + m2 + 65536 * u"
    unfolding u_def by auto
  have B_i: "a - b + c - d - 5636096 * u \<le> B" "B \<le> a - b + c - d + 5636096 * u"
    using B(2,3) n2_i m2_i by linarith+
  have "- 1 < A - B" and "A - B < 1"
    using u m1(2,3) A(2,3) n1(2,3) t(2,3) R(2,3) n2(2,3) t2(2,3) SS(2,3) m2(2,3) B(2,3) by linarith+
  then have "- (2 ^ 0) < A - B" and "A - B < 2 ^ 0"
    by simp_all
  from fsub_near [OF this] obtain o1 where o1:
    "fsub (Fin A) (Fin B) = Fin o1" "A - B - u \<le> o1" "o1 \<le> A - B + u"
    unfolding u_def by auto
  have "- 1 < o1 + 0" and "o1 + 0 < 1"
    using u m1(2,3) A(2,3) n1(2,3) t(2,3) R(2,3) n2(2,3) t2(2,3) SS(2,3) m2(2,3) B(2,3) o1(2,3) by linarith+
  then have "- (2 ^ 0) < o1 + 0" and "o1 + 0 < 2 ^ 0"
    by simp_all
  from fadd_near [OF this] obtain v where v:
    "fadd (Fin o1) (Fin 0) = Fin v" "o1 + 0 - u \<le> v" "v \<le> o1 + 0 + u"
    unfolding u_def by auto
  have "fadd (fsub (chebval1 (Fin (- 1)) [Fin a, Fin b, Fin c, Fin d])
      (chebval1 (Fin (- 1)) [Fin 0, Fin 0, Fin a, Fin b, Fin c, Fin d]))
      (fmul (Fin (1 / 2)) (fadd (fmul (Fin 0) (fadd (Fin 1) (Fin (- 1))))
        (fmul (Fin 0) (fsub (Fin 1) (Fin (- 1)))))) = Fin v"
    by (simp add: chebval1_def clenshaw_step_def Let_def x2 tl
        c01(1) t0(1) c11(1) P(1) t1(1) Q(1) m1(1) A(1) n1(1) t(1) R(1) n2(1) t2(1) SS(1) m2(1) B(1) o1(1) v(1))
  moreover have "- (1 / 10000000000) \<le> v" and "v \<le> 1 / 10000000000"
    using m1(2,3) A(2,3) n1(2,3) t(2,3) R(2,3) n2(2,3) t2(2,3) SS(2,3) m2(2,3) B(2,3) o1(2,3) v(2,3) u by linarith+
  ultimately show ?thesis
    by (intro exI [of _ v]) (simp add: abs_le_iff)
qed

text \<open>
  C8, as the code has it. For \<open>N = 6\<close> and every coefficient vector of six finite entries of
  magnitude at most \<open>10\<^sup>4\<close> whose entries at the positions \<open>N-2 = 4\<close> and \<open>N-1 = 5\<close> are zero,
  \<^verbatim>\<open>eval\<close> of the Dirichlet basis at the points \<open>1\<close> and \<open>-1\<close> returns two finite values
  within \<open>10\<^sup>-\<^sup>1\<^sup>0\<close> of \<open>0\<close>.
\<close>

theorem ShenDirichlet_eval_boundary:
  assumes "length cs = 6" and "cs ! 4 = 0" and "cs ! 5 = 0" and "\<forall>c \<in> set cs. \<bar>c\<bar> \<le> 10000"
  shows "\<exists>v w. ShenDirichlet_eval [Fin 1, Fin (- 1)] (map Fin cs) = Inr [Fin v, Fin w] \<and>
    \<bar>v - 0\<bar> \<le> 1 / 10 ^ 10 \<and> \<bar>w - 0\<bar> \<le> 1 / 10 ^ 10"
proof -
  have cs: "cs = [cs ! 0, cs ! 1, cs ! 2, cs ! 3, 0, 0]"
    using list6 [OF assms(1)] assms(2,3) by simp
  have "cs ! i \<in> set cs" if "i < 6" for i
    using that assms(1) by simp
  then have b: "\<bar>cs ! 0\<bar> \<le> 10000" "\<bar>cs ! 1\<bar> \<le> 10000" "\<bar>cs ! 2\<bar> \<le> 10000" "\<bar>cs ! 3\<bar> \<le> 10000"
    using assms(4) by simp_all
  from dirichlet_boundary_point_pos [OF b] obtain v where v:
    "fadd (fsub (chebval1 (Fin 1) [Fin (cs ! 0), Fin (cs ! 1), Fin (cs ! 2), Fin (cs ! 3)])
       (chebval1 (Fin 1) [Fin 0, Fin 0, Fin (cs ! 0), Fin (cs ! 1), Fin (cs ! 2), Fin (cs ! 3)]))
       (fmul (Fin (1 / 2)) (fadd (fmul (Fin 0) (fadd (Fin 1) (Fin 1)))
         (fmul (Fin 0) (fsub (Fin 1) (Fin 1))))) = Fin v"
    "\<bar>v\<bar> \<le> 1 / 10 ^ 10"
    by blast
  from dirichlet_boundary_point_neg [OF b] obtain w where w:
    "fadd (fsub (chebval1 (Fin (- 1)) [Fin (cs ! 0), Fin (cs ! 1), Fin (cs ! 2), Fin (cs ! 3)])
       (chebval1 (Fin (- 1)) [Fin 0, Fin 0, Fin (cs ! 0), Fin (cs ! 1), Fin (cs ! 2), Fin (cs ! 3)]))
       (fmul (Fin (1 / 2)) (fadd (fmul (Fin 0) (fadd (Fin 1) (Fin (- 1))))
         (fmul (Fin 0) (fsub (Fin 1) (Fin (- 1)))))) = Fin w"
    "\<bar>w\<bar> \<le> 1 / 10 ^ 10"
    by blast
  have "map Fin cs = [Fin (cs ! 0), Fin (cs ! 1), Fin (cs ! 2), Fin (cs ! 3), Fin 0, Fin 0]"
    by (subst cs) simp
  then have "ShenDirichlet_eval [Fin 1, Fin (- 1)] (map Fin cs) = Inr [Fin v, Fin w]"
    by (simp only: ShenDirichlet_eval_six list.map v(1) w(1))
  then show ?thesis
    using v(2) w(2) by simp
qed

theorem ShenDirichlet_eval_boundary_witness:
  "length [10000, - 10000, 5 / 2, 7, 0, 0 :: real] = 6 \<and>
   (\<exists>v w. ShenDirichlet_eval [Fin 1, Fin (- 1)] (map Fin [10000, - 10000, 5 / 2, 7, 0, 0])
             = Inr [Fin v, Fin w] \<and>
          \<bar>v - 0\<bar> \<le> 1 / 10 ^ 10 \<and> \<bar>w - 0\<bar> \<le> 1 / 10 ^ 10)"
  using ShenDirichlet_eval_boundary [of "[10000, - 10000, 5 / 2, 7, 0, 0]"] by simp

text \<open>
  Without the bound on the coefficients the two sums may round apart. At the
  coefficients \<open>2\<^sup>5\<^sup>2 + 1, 1, 1/2, 1/2, 0, 0\<close>, all of them float64 values, the sum of four
  terms is \<open>2\<^sup>5\<^sup>2 + 3\<close> at \<open>x = 1\<close> and the sum of six terms rounds to \<open>2\<^sup>5\<^sup>2 + 2\<close>:
  \<^verbatim>\<open>eval\<close> returns \<open>1\<close> at \<open>x = 1\<close>, and \<open>-1\<close> at \<open>x = -1\<close>.
\<close>

theorem ShenDirichlet_eval_rounding:
  "ShenDirichlet_eval [Fin 1, Fin (- 1)]
     [Fin 4503599627370497, Fin 1, Fin (1 / 2), Fin (1 / 2), Fin 0, Fin 0]
   = Inr [Fin 1, Fin (- 1)]"
  by (simp add: ShenDirichlet_eval_six chebval1_def clenshaw_step_def Let_def
      fadd_def fsub_def fmul_def float_op_def fl64_small_values fl64_exact_values
      fl64_rounded_1 fl64_rounded_2 fl64_rounded_3 fl64_rounded_4 fl64_rounded_5)
subsection \<open>Slice assignment keeps the shape\<close>

lemma slice_bound_le: "slice_bound n i \<le> n"
  by (auto simp: slice_bound_def)

lemma slice_lo_le: "slice_lo n a \<le> n"
  by (cases a) (simp_all add: slice_lo_def slice_bound_le)

lemma slice_hi_le: "slice_hi n b \<le> n"
  by (cases b) (simp_all add: slice_hi_def slice_bound_le)

lemma length_py_slice:
  "length (py_slice a b xs) = slice_hi (length xs) b - slice_lo (length xs) a"
  using slice_hi_le [of "length xs" b] by (simp add: py_slice_def Let_def)

lemma np_binop_same: "length xs = length ys \<Longrightarrow> np_binop f xs ys = Inr (map2 f xs ys)"
  by (simp add: np_binop_def)

lemma slice_assign_fits:
  assumes "length vs = slice_hi (length xs) b - slice_lo (length xs) a"
  shows "slice_assign a b xs vs =
    Inr (take (slice_lo (length xs) a) xs @ vs
         @ drop (slice_lo (length xs) a + (slice_hi (length xs) b - slice_lo (length xs) a)) xs)"
  using assms by (simp add: slice_assign_def Let_def broadcast_to_same)

lemma slice_assign_length:
  assumes "slice_assign a b xs vs = Inr ws"
  shows "length ws = length xs"
proof -
  let ?lo = "slice_lo (length xs) a" and ?hi = "slice_hi (length xs) b"
  obtain us where us: "broadcast_to (?hi - ?lo) vs = Inr us"
    and ws: "ws = take ?lo xs @ us @ drop (?lo + (?hi - ?lo)) xs"
    using assms by (auto simp: slice_assign_def Let_def split: sum.splits)
  have "length us = ?hi - ?lo"
    using us by (auto simp: broadcast_to_def split: if_splits)
  then show ?thesis
    using ws slice_lo_le [of "length xs" a] slice_hi_le [of "length xs" b] by auto
qed

lemma slice_update_fits:
  assumes "length vs = length (py_slice a b xs)"
  shows "\<exists>ws. slice_update f a b xs vs = Inr ws \<and> length ws = length xs"
proof -
  have b: "np_binop f (py_slice a b xs) vs = Inr (map2 f (py_slice a b xs) vs)"
    using assms by (simp add: np_binop_same)
  have "length (map2 f (py_slice a b xs) vs) = slice_hi (length xs) b - slice_lo (length xs) a"
    using assms by (simp add: length_py_slice)
  from slice_assign_fits [OF this]
  obtain ws where ws: "slice_assign a b xs (map2 f (py_slice a b xs) vs) = Inr ws"
    by blast
  then have "slice_update f a b xs vs = Inr ws"
    by (simp add: slice_update_def b)
  then show ?thesis using slice_assign_length [OF ws] by blast
qed

lemma slice_assign_zero_tail:
  assumes "k \<le> length (xs :: real list)" and "0 < k"
  shows "slice_assign (Some (- int k)) None xs [0] = Inr (take (length xs - k) xs @ replicate k 0)"
proof -
  have lo: "slice_lo (length xs) (Some (- int k)) = length xs - k"
    using assms by (simp add: slice_lo_def slice_bound_neg)
  have hi: "slice_hi (length xs) None = length xs"
    by (simp add: slice_hi_def)
  have "broadcast_to k [0 :: real] = Inr (replicate k 0)"
    by (cases "k = 1") (simp_all add: broadcast_to_def)
  then show ?thesis
    using assms by (simp add: slice_assign_def lo hi Let_def)
qed

subsection \<open>Scalar products of the Neumann and the biharmonic basis\<close>

lemma scalar_product_buffer:
  assumes "basis_N ct = int (length (buf_U ct))" and "2 \<le> basis_N ct"
  shows "\<exists>fk. scalar_product ct None None True = Inr (fk, ct\<lparr>buf_V := fk\<rparr>) \<and>
    length fk = length (xfftn_fwd ct (buf_U ct))"
  unfolding scalar_product_def
  by (cases "quad ct")
    (simp_all add: load_input_None fast_scalar_product_value [OF assms] store_output_None)

lemma slow_scalar_product_length:
  assumes "slow_scalar_product vsp ct = Inr ct2"
  shows "length (buf_V ct2) = length (buf_V ct) \<and> buf_U ct2 = buf_U ct"
  using assms assign_all_length
  by (auto simp: slow_scalar_product_def and_then_def split: sum.splits)

lemma neumann_finish_value:
  assumes "3 \<le> length (buf_V (neumann_CT self))"
  shows "neumann_finish self =
    Inr (self\<lparr>neumann_CT := (neumann_CT self)\<lparr>buf_V :=
      take (length (buf_V (neumann_CT self)) - 2)
        ((buf_V (neumann_CT self))[0 := neumann_mean self * pi]) @ [0, 0]\<rparr>\<rparr>)"
proof -
  let ?v = "buf_V (neumann_CT self)"
  let ?v1 = "?v[0 := neumann_mean self * pi]"
  have "0 < length ?v" using assms by linarith
  then have s: "set_at ?v 0 (neumann_mean self * pi) = Inr ?v1"
    by (simp add: set_at_def py_index_0)
  have "slice_assign (Some (- int 2)) None ?v1 [0] = Inr (take (length ?v1 - 2) ?v1 @ replicate 2 0)"
    using assms by (intro slice_assign_zero_tail) simp_all
  then have z: "slice_assign (Some (- 2)) None ?v1 [0] = Inr (take (length ?v - 2) ?v1 @ [0, 0])"
    by (simp add: numeral_2_eq_2)
  show ?thesis by (simp add: neumann_finish_def s z)
qed

lemma neumann_slots:
  assumes "3 \<le> length (v :: real list)"
  shows "length (take (length v - 2) (v[0 := m]) @ [0, 0]) = length v"
    and "(take (length v - 2) (v[0 := m]) @ [0, 0]) ! 0 = m"
    and "(take (length v - 2) (v[0 := m]) @ [0, 0]) ! (length v - 2) = 0"
    and "(take (length v - 2) (v[0 := m]) @ [0, 0]) ! (length v - 1) = 0"
proof -
  have n: "0 < length v" "0 < length v - 2" "\<not> length v - 1 < length v - 2"
    "length v - 1 - (length v - 2) = 1"
    using assms by linarith+
  show "length (take (length v - 2) (v[0 := m]) @ [0, 0]) = length v"
    using assms by simp
  show "(take (length v - 2) (v[0 := m]) @ [0, 0]) ! 0 = m"
    using n by (simp add: nth_append)
  show "(take (length v - 2) (v[0 := m]) @ [0, 0]) ! (length v - 2) = 0"
    using n by (simp add: nth_append)
  show "(take (length v - 2) (v[0 := m]) @ [0, 0]) ! (length v - 1) = 0"
    using n by (simp add: nth_append)
qed

lemma biharmonic_finish_value:
  assumes "4 \<le> length (buf_V (biharmonic_CT self))"
  shows "biharmonic_finish self =
    Inr (self\<lparr>biharmonic_CT := (biharmonic_CT self)\<lparr>buf_V :=
      take (length (buf_V (biharmonic_CT self)) - 4) (buf_V (biharmonic_CT self))
        @ [0, 0, 0, 0]\<rparr>\<rparr>)"
proof -
  let ?v = "buf_V (biharmonic_CT self)"
  have "slice_assign (Some (- int 4)) None ?v [0] = Inr (take (length ?v - 4) ?v @ replicate 4 0)"
    using assms by (intro slice_assign_zero_tail) simp_all
  then have z: "slice_assign (Some (- 4)) None ?v [0] = Inr (take (length ?v - 4) ?v @ [0, 0, 0, 0])"
    by (simp add: numeral_eq_Suc)
  show ?thesis by (simp add: biharmonic_finish_def z)
qed

lemma biharmonic_slots:
  assumes "4 \<le> length (v :: real list)" and "length v - 4 \<le> k" and "k < length v"
  shows "length (take (length v - 4) v @ [0, 0, 0, 0]) = length v"
    and "(take (length v - 4) v @ [0, 0, 0, 0]) ! k = 0"
proof -
  show "length (take (length v - 4) v @ [0, 0, 0, 0]) = length v"
    using assms by simp
  have "k - (length v - 4) < 4" using assms by linarith
  then have "[0, 0, 0, 0 :: real] ! (k - (length v - 4)) = 0"
    by (auto simp: nth_Cons' less_Suc_eq numeral_eq_Suc)
  then show "(take (length v - 4) v @ [0, 0, 0, 0]) ! k = 0"
    using assms by (simp add: nth_append)
qed

text \<open>The attributes of \<^verbatim>\<open>ChebyshevBase\<close> are untouched by updates of the attributes a
  Shen basis adds.\<close>

lemma neumann_base_fields [simp]:
  "basis_N ((self :: ShenNeumannBasis)\<lparr>neumann_CT := c\<rparr>) = basis_N self"
  "basis_N (self\<lparr>neumann_factor := w\<rparr>) = basis_N self"
  "vandermonde_scalar_product (self\<lparr>neumann_CT := c\<rparr>) = vandermonde_scalar_product self"
  "vandermonde_scalar_product (self\<lparr>neumann_factor := w\<rparr>) = vandermonde_scalar_product self"
  by (cases self, simp)+

lemma biharmonic_base_fields [simp]:
  "basis_N ((self :: ShenBiharmonicBasis)\<lparr>biharmonic_CT := c\<rparr>) = basis_N self"
  "basis_N (self\<lparr>biharmonic_factor1 := w\<rparr>) = basis_N self"
  "basis_N (self\<lparr>biharmonic_factor2 := w\<rparr>) = basis_N self"
  "vandermonde_scalar_product (self\<lparr>biharmonic_CT := c\<rparr>) = vandermonde_scalar_product self"
  by (cases self, simp)+

lemma neumann_recombine_ok:
  assumes n: "basis_N (neumann_CT self) = int (length (buf_U (neumann_CT self)))"
      "3 \<le> basis_N (neumann_CT self)"
    and prov: "length (xfftn_fwd (neumann_CT self) (buf_U (neumann_CT self))) =
      length (buf_U (neumann_CT self))"
    and fac: "length (neumann_factor self) = 0 \<or>
      length (neumann_factor self) = length (buf_U (neumann_CT self)) - 2"
  shows "\<exists>s. neumann_recombine self = Inr s \<and>
    length (buf_V (neumann_CT s)) = length (buf_U (neumann_CT self)) \<and>
    neumann_mean s = neumann_mean self"
proof -
  let ?ct = "neumann_CT self"
  let ?n = "length (buf_U ?ct)"
  have n2: "2 \<le> basis_N ?ct" and n3: "3 \<le> ?n" using n by linarith+
  obtain fk where sp: "scalar_product ?ct None None True = Inr (fk, ?ct\<lparr>buf_V := fk\<rparr>)"
    and lfk: "length fk = ?n"
    using scalar_product_buffer [OF n(1) n2] prov by auto
  let ?s1 = "set_factor_array self fk"
  have ne: "length (neumann_factor self) \<noteq> length fk"
    using fac lfk n3 by auto
  have lf: "length (neumann_factor ?s1) = ?n - 2"
    using ne lfk by (simp add: set_factor_array_def wavenumbers_def)
  have m1: "neumann_mean ?s1 = neumann_mean self"
    by (simp add: set_factor_array_def)
  let ?t = "map2 (*) (neumann_factor ?s1) (py_slice (Some 2) None fk)"
  have t: "np_binop (*) (neumann_factor ?s1) (py_slice (Some 2) None fk) = Inr ?t"
    using lf lfk by (intro np_binop_same) (simp add: py_slice_from2)
  have "length ?t = length (py_slice (Some 0) (Some (- 2)) fk)"
    using lf lfk by (simp add: py_slice_from2 py_slice_head2')
  from slice_update_fits [OF this, of "(-)"]
  obtain fk1 where u: "slice_update (-) (Some 0) (Some (- 2)) fk ?t = Inr fk1"
    and lfk1: "length fk1 = length fk"
    by blast
  have "neumann_recombine self = Inr (?s1\<lparr>neumann_CT := (?ct\<lparr>buf_V := fk\<rparr>)\<lparr>buf_V := fk1\<rparr>\<rparr>)"
    by (simp add: neumann_recombine_def sp Let_def t u)
  then show ?thesis using lfk1 lfk m1 by simp
qed

lemma ShenNeumann_scalar_product_slots:
  assumes n: "basis_N (neumann_CT self) = int (length (buf_U (neumann_CT self)))"
      "3 \<le> basis_N (neumann_CT self)"
    and v: "length (buf_V (neumann_CT self)) = length (buf_U (neumann_CT self))"
    and f: "length f = length (buf_U (neumann_CT self))"
    and prov: "length (xfftn_fwd (neumann_CT self) f) = length f"
    and fac: "length (neumann_factor self) = 0 \<or>
      length (neumann_factor self) = length (buf_U (neumann_CT self)) - 2"
  shows "\<exists>out s. ShenNeumann_scalar_product self (Some f) None True = Inr (out, s) \<and>
      length out = length f \<and> out ! 0 = neumann_mean self * pi \<and>
      out ! (length f - 2) = 0 \<and> out ! (length f - 1) = 0"
    and "ShenNeumann_scalar_product self (Some f) None False = Inr (out, s) \<Longrightarrow>
      length out = length f \<and> out ! 0 = neumann_mean self * pi \<and>
      out ! (length f - 2) = 0 \<and> out ! (length f - 1) = 0"
proof -
  let ?ct1 = "(neumann_CT self)\<lparr>buf_U := f\<rparr>"
  let ?self1 = "self\<lparr>neumann_CT := ?ct1\<rparr>"
  have l: "load_input (neumann_CT self) (Some f) = Inr ?ct1"
    using f by (rule load_input_Some)
  have n3: "3 \<le> length f" using n f by linarith
  have fin: "\<exists>out s. and_then (neumann_finish s2) (\<lambda>self3.
        and_then (store_output (neumann_CT self3) None) (\<lambda>r. Inr (fst r, self3))) = Inr (out, s) \<and>
      length out = length f \<and> out ! 0 = neumann_mean self * pi \<and>
      out ! (length f - 2) = 0 \<and> out ! (length f - 1) = 0"
    if "length (buf_V (neumann_CT s2)) = length f" and "neumann_mean s2 = neumann_mean self"
    for s2
  proof -
    have "3 \<le> length (buf_V (neumann_CT s2))" using that n3 by simp
    from neumann_finish_value [OF this] neumann_slots [OF this, of "neumann_mean s2 * pi"]
    show ?thesis using that by (simp add: store_output_None)
  qed
  show "\<exists>out s. ShenNeumann_scalar_product self (Some f) None True = Inr (out, s) \<and>
      length out = length f \<and> out ! 0 = neumann_mean self * pi \<and>
      out ! (length f - 2) = 0 \<and> out ! (length f - 1) = 0"
  proof -
    have "\<exists>s. neumann_recombine ?self1 = Inr s \<and>
        length (buf_V (neumann_CT s)) = length (buf_U (neumann_CT ?self1)) \<and>
        neumann_mean s = neumann_mean ?self1"
      using n f prov fac by (intro neumann_recombine_ok) simp_all
    then obtain s2 where r: "neumann_recombine ?self1 = Inr s2"
      and "length (buf_V (neumann_CT s2)) = length f" "neumann_mean s2 = neumann_mean self"
      by auto
    from fin [OF this(2,3)] show ?thesis
      by (simp add: ShenNeumann_scalar_product_def l r)
  qed
  show "length out = length f \<and> out ! 0 = neumann_mean self * pi \<and>
      out ! (length f - 2) = 0 \<and> out ! (length f - 1) = 0"
    if ret: "ShenNeumann_scalar_product self (Some f) None False = Inr (out, s)"
  proof -
    obtain ct2 where sl: "slow_scalar_product (vandermonde_scalar_product self) ?ct1 = Inr ct2"
      using ret by (auto simp: ShenNeumann_scalar_product_def l and_then_def split: sum.splits)
    have "length (buf_V ct2) = length f"
      using slow_scalar_product_length [OF sl] v f by simp
    then have "length (buf_V (neumann_CT (self\<lparr>neumann_CT := ct2\<rparr>))) = length f"
      "neumann_mean (self\<lparr>neumann_CT := ct2\<rparr>) = neumann_mean self"
      by simp_all
    from fin [OF this] show ?thesis
      using ret by (auto simp: ShenNeumann_scalar_product_def l sl)
  qed
qed

lemma py_slice_upto:
  assumes "0 \<le> i"
  shows "py_slice (Some 0) (Some i) v = take (nat i) v"
  using assms
  by (simp add: py_slice_def slice_lo_def slice_hi_def slice_bound_nonneg Let_def min_def)

lemma py_slice_mid: "py_slice (Some 2) (Some (- 2)) v = take (length v - 4) (drop 2 v)"
proof -
  have "min 2 (length v) = 2 \<or> length v - 2 - min 2 (length v) = 0" by linarith
  then have "take (length v - 2 - min 2 (length v)) (drop (min 2 (length v)) v) =
      take (length v - 4) (drop 2 v)"
    using drop_min_length [of 2 v] by (cases "2 \<le> length v") (simp_all add: min_def)
  then show ?thesis
    by (simp add: py_slice_def slice_lo_def slice_hi_def slice_bound_nonneg slice_bound_neg
        numeral_2_eq_2)
qed

lemma biharmonic_recombine_ok:
  assumes n: "basis_N (biharmonic_CT self) = int (length (buf_U (biharmonic_CT self)))"
      "4 \<le> basis_N (biharmonic_CT self)" "basis_N self = basis_N (biharmonic_CT self)"
    and prov: "length (xfftn_fwd (biharmonic_CT self) (buf_U (biharmonic_CT self))) =
      length (buf_U (biharmonic_CT self))"
    and fac: "length (biharmonic_factor2 self) = length (biharmonic_factor1 self)"
  shows "\<exists>s. biharmonic_recombine self = Inr s \<and>
    length (buf_V (biharmonic_CT s)) = length (buf_U (biharmonic_CT self))"
proof -
  let ?ct = "biharmonic_CT self"
  let ?n = "length (buf_U ?ct)"
  let ?hi = "Some (basis_N self - 4)"
  have n2: "2 \<le> basis_N ?ct" and n4: "4 \<le> ?n" and i: "0 \<le> basis_N self - 4"
    and ni: "nat (basis_N self - 4) = ?n - 4"
    using n by linarith+
  obtain fk where sp: "scalar_product ?ct None None True = Inr (fk, ?ct\<lparr>buf_V := fk\<rparr>)"
    and lfk: "length fk = ?n"
    using scalar_product_buffer [OF n(1) n2] prov by auto
  have lsl: "length (py_slice (Some 0) ?hi w) = ?n - 4" if "length w = ?n" for w :: "real list"
    using that n4 by (simp add: py_slice_upto [OF i] ni)
  let ?s1 = "set_factor_arrays self fk"
  have lf: "length (biharmonic_factor1 ?s1) = ?n - 4" "length (biharmonic_factor2 ?s1) = ?n - 4"
    using fac lfk lsl [OF lfk] by (auto simp: set_factor_arrays_def wavenumbers_def)
  let ?t1 = "map2 (*) (biharmonic_factor1 ?s1) (py_slice (Some 2) (Some (- 2)) fk)"
  have t1: "np_binop (*) (biharmonic_factor1 ?s1) (py_slice (Some 2) (Some (- 2)) fk) = Inr ?t1"
    using lf lfk n4 by (intro np_binop_same) (simp add: py_slice_mid)
  have "length ?t1 = length (py_slice (Some 0) ?hi fk)"
    using lf lfk n4 lsl [OF lfk] by (simp add: py_slice_mid)
  from slice_update_fits [OF this, of "(+)"]
  obtain o1 where u1: "slice_update (+) (Some 0) ?hi fk ?t1 = Inr o1"
    and lo1: "length o1 = ?n"
    using lfk by auto
  let ?t2 = "map2 (*) (biharmonic_factor2 ?s1) (py_slice (Some 4) None fk)"
  have t2: "np_binop (*) (biharmonic_factor2 ?s1) (py_slice (Some 4) None fk) = Inr ?t2"
    using lf lfk n4 by (intro np_binop_same) (simp add: py_slice_from4)
  have "length ?t2 = length (py_slice (Some 0) ?hi o1)"
    using lf lfk n4 lsl [OF lo1] by (simp add: py_slice_from4)
  from slice_update_fits [OF this, of "(+)"]
  obtain o2 where u2: "slice_update (+) (Some 0) ?hi o1 ?t2 = Inr o2"
    and lo2: "length o2 = ?n"
    using lo1 by auto
  have "biharmonic_recombine self = Inr (?s1\<lparr>biharmonic_CT := (?ct\<lparr>buf_V := fk\<rparr>)\<lparr>buf_V := o2\<rparr>\<rparr>)"
    by (simp add: biharmonic_recombine_def sp Let_def t1 u1 t2 u2)
  then show ?thesis using lo2 by simp
qed

lemma ShenBiharmonic_scalar_product_slots:
  assumes n: "basis_N (biharmonic_CT self) = int (length (buf_U (biharmonic_CT self)))"
      "4 \<le> basis_N (biharmonic_CT self)" "basis_N self = basis_N (biharmonic_CT self)"
    and v: "length (buf_V (biharmonic_CT self)) = length (buf_U (biharmonic_CT self))"
    and f: "length f = length (buf_U (biharmonic_CT self))"
    and prov: "length (xfftn_fwd (biharmonic_CT self) f) = length f"
    and fac: "length (biharmonic_factor2 self) = length (biharmonic_factor1 self)"
  shows "\<exists>out s. ShenBiharmonic_scalar_product self (Some f) None True = Inr (out, s) \<and>
      length out = length f \<and> out ! (length f - 4) = 0 \<and> out ! (length f - 3) = 0 \<and>
      out ! (length f - 2) = 0 \<and> out ! (length f - 1) = 0"
    and "ShenBiharmonic_scalar_product self (Some f) None False = Inr (out, s) \<Longrightarrow>
      length out = length f \<and> out ! (length f - 4) = 0 \<and> out ! (length f - 3) = 0 \<and>
      out ! (length f - 2) = 0 \<and> out ! (length f - 1) = 0"
proof -
  let ?ct1 = "(biharmonic_CT self)\<lparr>buf_U := f\<rparr>"
  let ?self1 = "self\<lparr>biharmonic_CT := ?ct1\<rparr>"
  have l: "load_input (biharmonic_CT self) (Some f) = Inr ?ct1"
    using f by (rule load_input_Some)
  have n4: "4 \<le> length f" using n f by linarith
  have fin: "\<exists>out s. and_then (biharmonic_finish s2) (\<lambda>self3.
        and_then (store_output (biharmonic_CT self3) None) (\<lambda>r. Inr (fst r, self3))) = Inr (out, s) \<and>
      length out = length f \<and> out ! (length f - 4) = 0 \<and> out ! (length f - 3) = 0 \<and>
      out ! (length f - 2) = 0 \<and> out ! (length f - 1) = 0"
    if "length (buf_V (biharmonic_CT s2)) = length f" for s2
  proof -
    let ?w = "buf_V (biharmonic_CT s2)"
    have w4: "4 \<le> length ?w" using that n4 by simp
    have "(take (length ?w - 4) ?w @ [0, 0, 0, 0]) ! k = 0"
      if "length ?w - 4 \<le> k" "k < length ?w" for k
      using biharmonic_slots(2) [OF w4 that] .
    then have "(take (length ?w - 4) ?w @ [0, 0, 0, 0]) ! (length ?w - 4) = 0"
      "(take (length ?w - 4) ?w @ [0, 0, 0, 0]) ! (length ?w - 3) = 0"
      "(take (length ?w - 4) ?w @ [0, 0, 0, 0]) ! (length ?w - 2) = 0"
      "(take (length ?w - 4) ?w @ [0, 0, 0, 0]) ! (length ?w - 1) = 0"
      using w4 by simp_all
    with biharmonic_finish_value [OF w4] show ?thesis
      using that w4 by (simp add: store_output_None)
  qed
  show "\<exists>out s. ShenBiharmonic_scalar_product self (Some f) None True = Inr (out, s) \<and>
      length out = length f \<and> out ! (length f - 4) = 0 \<and> out ! (length f - 3) = 0 \<and>
      out ! (length f - 2) = 0 \<and> out ! (length f - 1) = 0"
  proof -
    have "\<exists>s. biharmonic_recombine ?self1 = Inr s \<and>
        length (buf_V (biharmonic_CT s)) = length (buf_U (biharmonic_CT ?self1))"
      using n f prov fac by (intro biharmonic_recombine_ok) simp_all
    then obtain s2 where r: "biharmonic_recombine ?self1 = Inr s2"
      and "length (buf_V (biharmonic_CT s2)) = length f"
      by auto
    from fin [OF this(2)] show ?thesis
      by (simp add: ShenBiharmonic_scalar_product_def l r)
  qed
  show "length out = length f \<and> out ! (length f - 4) = 0 \<and> out ! (length f - 3) = 0 \<and>
      out ! (length f - 2) = 0 \<and> out ! (length f - 1) = 0"
    if ret: "ShenBiharmonic_scalar_product self (Some f) None False = Inr (out, s)"
  proof -
    obtain ct2 where sl: "slow_scalar_product (vandermonde_scalar_product self) ?ct1 = Inr ct2"
      using ret by (auto simp: ShenBiharmonic_scalar_product_def l and_then_def split: sum.splits)
    have "length (buf_V ct2) = length f"
      using slow_scalar_product_length [OF sl] v f by simp
    then have "length (buf_V (biharmonic_CT (self\<lparr>biharmonic_CT := ct2\<rparr>))) = length f"
      by simp
    from fin [OF this] show ?thesis
      using ret by (auto simp: ShenBiharmonic_scalar_product_def l sl)
  qed
qed

text \<open>
  C7. Take a planned Neumann basis with \<open>N \<ge> 3\<close> and a planned biharmonic basis with
  \<open>N \<ge> 4\<close> (each wraps a plain basis of the same \<open>N\<close> whose buffers have \<open>N\<close> entries, the
  provider's forward transform keeps the shape, and the cached factor arrays are as the
  constructor or an earlier call left them), and input arrays of the planned shape.
  On the fast path \<^verbatim>\<open>scalar_product\<close> returns: for Neumann an array whose entry \<open>0\<close> is
  \<open>mean * pi\<close> and whose last two entries are \<open>0\<close>; for the biharmonic basis an array whose
  last four entries are \<open>0\<close>. On the slow path the same holds of whatever array the call
  returns.
\<close>

theorem shen_scalar_product_boundary_slots:
  assumes "basis_N (neumann_CT sn) = int (length (buf_U (neumann_CT sn)))"
    and "3 \<le> basis_N (neumann_CT sn)"
    and "length (buf_V (neumann_CT sn)) = length (buf_U (neumann_CT sn))"
    and "length f = length (buf_U (neumann_CT sn))"
    and "length (xfftn_fwd (neumann_CT sn) f) = length f"
    and "length (neumann_factor sn) = 0 \<or>
      length (neumann_factor sn) = length (buf_U (neumann_CT sn)) - 2"
    and "basis_N (biharmonic_CT sb) = int (length (buf_U (biharmonic_CT sb)))"
    and "4 \<le> basis_N (biharmonic_CT sb)"
    and "basis_N sb = basis_N (biharmonic_CT sb)"
    and "length (buf_V (biharmonic_CT sb)) = length (buf_U (biharmonic_CT sb))"
    and "length g = length (buf_U (biharmonic_CT sb))"
    and "length (xfftn_fwd (biharmonic_CT sb) g) = length g"
    and "length (biharmonic_factor2 sb) = length (biharmonic_factor1 sb)"
  shows "(\<exists>out s. ShenNeumann_scalar_product sn (Some f) None True = Inr (out, s) \<and>
        length out = length f \<and> out ! 0 = neumann_mean sn * pi \<and>
        out ! (length f - 2) = 0 \<and> out ! (length f - 1) = 0) \<and>
    (\<forall>out s. ShenNeumann_scalar_product sn (Some f) None False = Inr (out, s) \<longrightarrow>
        length out = length f \<and> out ! 0 = neumann_mean sn * pi \<and>
        out ! (length f - 2) = 0 \<and> out ! (length f - 1) = 0) \<and>
    (\<exists>out s. ShenBiharmonic_scalar_product sb (Some g) None True = Inr (out, s) \<and>
        length out = length g \<and> out ! (length g - 4) = 0 \<and> out ! (length g - 3) = 0 \<and>
        out ! (length g - 2) = 0 \<and> out ! (length g - 1) = 0) \<and>
    (\<forall>out s. ShenBiharmonic_scalar_product sb (Some g) None False = Inr (out, s) \<longrightarrow>
        length out = length g \<and> out ! (length g - 4) = 0 \<and> out ! (length g - 3) = 0 \<and>
        out ! (length g - 2) = 0 \<and> out ! (length g - 1) = 0)"
proof (intro conjI allI impI)
  show "\<exists>out s. ShenNeumann_scalar_product sn (Some f) None True = Inr (out, s) \<and>
        length out = length f \<and> out ! 0 = neumann_mean sn * pi \<and>
        out ! (length f - 2) = 0 \<and> out ! (length f - 1) = 0"
    using assms(1-6) by (rule ShenNeumann_scalar_product_slots(1))
  show "\<exists>out s. ShenBiharmonic_scalar_product sb (Some g) None True = Inr (out, s) \<and>
        length out = length g \<and> out ! (length g - 4) = 0 \<and> out ! (length g - 3) = 0 \<and>
        out ! (length g - 2) = 0 \<and> out ! (length g - 1) = 0"
    using assms(7-13) by (rule ShenBiharmonic_scalar_product_slots(1))
next
  fix out s
  assume r: "ShenNeumann_scalar_product sn (Some f) None False = Inr (out, s)"
  from ShenNeumann_scalar_product_slots(2) [OF assms(1-6) r]
  show "length out = length f" "out ! 0 = neumann_mean sn * pi"
    "out ! (length f - 2) = 0" "out ! (length f - 1) = 0"
    by simp_all
next
  fix out s
  assume r: "ShenBiharmonic_scalar_product sb (Some g) None False = Inr (out, s)"
  from ShenBiharmonic_scalar_product_slots(2) [OF assms(7-13) r]
  show "length out = length g" "out ! (length g - 4) = 0" "out ! (length g - 3) = 0"
    "out ! (length g - 2) = 0" "out ! (length g - 1) = 0"
    by simp_all
qed

theorem shen_scalar_product_boundary_slots_witness:
  "fst (projr (ShenNeumann_scalar_product
      \<lparr>basis_N = 4, quad = GC, domain = (- 1, 1), vandermonde_scalar_product = (\<lambda>u v. Inr u),
       neumann_mean = 5,
       neumann_CT = \<lparr>basis_N = 4, quad = GC, domain = (- 1, 1),
         vandermonde_scalar_product = (\<lambda>u v. Inr u), xfftn_fwd = rev, xfftn_bck = rev,
         buf_U = [0, 0, 0, 0], buf_V = [0, 0, 0, 0]\<rparr>,
       neumann_factor = []\<rparr> (Some [1, 2, 3, 4]) None True)) ! 0 = 5 * pi \<and>
   fst (projr (ShenBiharmonic_scalar_product
      \<lparr>basis_N = 6, quad = GL, domain = (- 1, 1), vandermonde_scalar_product = (\<lambda>u v. Inr u),
       biharmonic_CT = \<lparr>basis_N = 6, quad = GL, domain = (- 1, 1),
         vandermonde_scalar_product = (\<lambda>u v. Inr u), xfftn_fwd = rev, xfftn_bck = rev,
         buf_U = [0, 0, 0, 0, 0, 0], buf_V = [0, 0, 0, 0, 0, 0]\<rparr>,
       biharmonic_factor1 = [], biharmonic_factor2 = []\<rparr>
      (Some [1, 2, 3, 4, 5, 6]) None True)) ! 2 = 0"
proof -
  let ?sn = "\<lparr>basis_N = 4, quad = GC, domain = (- 1, 1),
       vandermonde_scalar_product = (\<lambda>u v. Inr u), neumann_mean = 5,
       neumann_CT = \<lparr>basis_N = 4, quad = GC, domain = (- 1, 1),
         vandermonde_scalar_product = (\<lambda>u v. Inr u), xfftn_fwd = rev, xfftn_bck = rev,
         buf_U = [0, 0, 0, 0], buf_V = [0, 0, 0, 0]\<rparr>,
       neumann_factor = []\<rparr>"
  let ?sb = "\<lparr>basis_N = 6, quad = GL, domain = (- 1, 1),
       vandermonde_scalar_product = (\<lambda>u v. Inr u),
       biharmonic_CT = \<lparr>basis_N = 6, quad = GL, domain = (- 1, 1),
         vandermonde_scalar_product = (\<lambda>u v. Inr u), xfftn_fwd = rev, xfftn_bck = rev,
         buf_U = [0, 0, 0, 0, 0, 0], buf_V = [0, 0, 0, 0, 0, 0]\<rparr>,
       biharmonic_factor1 = [], biharmonic_factor2 = []\<rparr>"
  have all: "(\<exists>out s. ShenNeumann_scalar_product ?sn (Some [1, 2, 3, 4]) None True = Inr (out, s) \<and>
        length out = length [1, 2, 3, 4 :: real] \<and> out ! 0 = neumann_mean ?sn * pi \<and>
        out ! (length [1, 2, 3, 4 :: real] - 2) = 0 \<and> out ! (length [1, 2, 3, 4 :: real] - 1) = 0) \<and>
    (\<forall>out s. ShenNeumann_scalar_product ?sn (Some [1, 2, 3, 4]) None False = Inr (out, s) \<longrightarrow>
        length out = length [1, 2, 3, 4 :: real] \<and> out ! 0 = neumann_mean ?sn * pi \<and>
        out ! (length [1, 2, 3, 4 :: real] - 2) = 0 \<and> out ! (length [1, 2, 3, 4 :: real] - 1) = 0) \<and>
    (\<exists>out s. ShenBiharmonic_scalar_product ?sb (Some [1, 2, 3, 4, 5, 6]) None True = Inr (out, s) \<and>
        length out = length [1, 2, 3, 4, 5, 6 :: real] \<and>
        out ! (length [1, 2, 3, 4, 5, 6 :: real] - 4) = 0 \<and>
        out ! (length [1, 2, 3, 4, 5, 6 :: real] - 3) = 0 \<and>
        out ! (length [1, 2, 3, 4, 5, 6 :: real] - 2) = 0 \<and>
        out ! (length [1, 2, 3, 4, 5, 6 :: real] - 1) = 0) \<and>
    (\<forall>out s. ShenBiharmonic_scalar_product ?sb (Some [1, 2, 3, 4, 5, 6]) None False = Inr (out, s) \<longrightarrow>
        length out = length [1, 2, 3, 4, 5, 6 :: real] \<and>
        out ! (length [1, 2, 3, 4, 5, 6 :: real] - 4) = 0 \<and>
        out ! (length [1, 2, 3, 4, 5, 6 :: real] - 3) = 0 \<and>
        out ! (length [1, 2, 3, 4, 5, 6 :: real] - 2) = 0 \<and>
        out ! (length [1, 2, 3, 4, 5, 6 :: real] - 1) = 0)"
    by (rule shen_scalar_product_boundary_slots) simp_all
  from all obtain o1 s1 where
    "ShenNeumann_scalar_product ?sn (Some [1, 2, 3, 4]) None True = Inr (o1, s1)"
    "o1 ! 0 = neumann_mean ?sn * pi"
    by blast
  then have 1: "fst (projr (ShenNeumann_scalar_product ?sn (Some [1, 2, 3, 4]) None True)) ! 0
      = 5 * pi"
    by simp
  from all obtain o2 s2 where
    "ShenBiharmonic_scalar_product ?sb (Some [1, 2, 3, 4, 5, 6]) None True = Inr (o2, s2)"
    "o2 ! (length [1, 2, 3, 4, 5, 6 :: real] - 4) = 0"
    by blast
  then have 2: "fst (projr (ShenBiharmonic_scalar_product ?sb (Some [1, 2, 3, 4, 5, 6]) None True)) ! 2
      = 0"
    by (simp add: numeral_2_eq_2)
  show ?thesis using 1 2 by (rule conjI)
qed

text \<open>With \<open>N = 2\<close> the Neumann basis returns \<open>0\<close> in the entry \<open>0\<close> as well: the slice
  \<^verbatim>\<open>fk[-2:]\<close> then covers the whole array.\<close>

lemma neumann_finish_two:
  "neumann_finish
     \<lparr>basis_N = 2, quad = GC, domain = (- 1, 1), vandermonde_scalar_product = (\<lambda>u v. Inr u),
      neumann_mean = 5,
      neumann_CT = \<lparr>basis_N = 2, quad = GC, domain = (- 1, 1),
        vandermonde_scalar_product = (\<lambda>u v. Inr u), xfftn_fwd = rev, xfftn_bck = rev,
        buf_U = [1, 2], buf_V = [3, 4]\<rparr>,
      neumann_factor = []\<rparr> =
   Inr \<lparr>basis_N = 2, quad = GC, domain = (- 1, 1), vandermonde_scalar_product = (\<lambda>u v. Inr u),
      neumann_mean = 5,
      neumann_CT = \<lparr>basis_N = 2, quad = GC, domain = (- 1, 1),
        vandermonde_scalar_product = (\<lambda>u v. Inr u), xfftn_fwd = rev, xfftn_bck = rev,
        buf_U = [1, 2], buf_V = [0, 0]\<rparr>,
      neumann_factor = []\<rparr>"
  by (simp add: neumann_finish_def set_at_def py_index_def slice_assign_def slice_lo_def
      slice_hi_def slice_bound_def broadcast_to_def Let_def)

subsection \<open>Sums of cosines over a quadrature grid\<close>

lemma sum_list_upt_sum: "sum_list (map f [m..<n]) = sum f {m..<n}"
  by (simp add: interv_sum_list_conv_sum_set_nat)

lemma sin_half_cos_sum:
  "sin (t / 2) * (\<Sum>j<n. cos ((real j + 1 / 2) * t)) = sin (real n * t) / 2"
proof (induction n)
  case 0
  show ?case by simp
next
  case (Suc n)
  have "sin (t / 2) * cos ((real n + 1 / 2) * t) =
      (sin (t / 2 + (real n + 1 / 2) * t) + sin (t / 2 - (real n + 1 / 2) * t)) / 2"
    by (rule sin_times_cos)
  also have "t / 2 + (real n + 1 / 2) * t = real (Suc n) * t"
    by (simp add: algebra_simps)
  also have "t / 2 - (real n + 1 / 2) * t = - (real n * t)"
    by (simp add: algebra_simps)
  finally have step: "sin (t / 2) * cos ((real n + 1 / 2) * t) =
      (sin (real (Suc n) * t) - sin (real n * t)) / 2"
    by simp
  have "sin (t / 2) * (\<Sum>j<Suc n. cos ((real j + 1 / 2) * t)) =
      sin (t / 2) * (\<Sum>j<n. cos ((real j + 1 / 2) * t)) + sin (t / 2) * cos ((real n + 1 / 2) * t)"
    by (simp add: distrib_left)
  also have "\<dots> = sin (real n * t) / 2 + (sin (real (Suc n) * t) - sin (real n * t)) / 2"
    by (simp only: Suc.IH step)
  finally show ?case by (simp add: field_simps)
qed

lemma sin_pos_between:
  assumes "0 < k" and "k < 2 * n"
  shows "0 < sin (pi * real k / real n / 2)"
proof -
  have n: "0 < real n" using assms by (cases n) simp_all
  have "0 < pi * real k / real n / 2"
    using assms n by simp
  moreover have "pi * real k / real n / 2 < pi"
  proof -
    have "real k < 2 * real n" using assms(2) by (metis of_nat_less_iff of_nat_mult of_nat_numeral)
    then have "real k / real n / 2 < 1" using n by (simp add: field_simps)
    then have "pi * (real k / real n / 2) < pi * 1"
      by (intro mult_strict_left_mono) simp_all
    then show ?thesis by simp
  qed
  ultimately show ?thesis by (rule sin_gt_zero)
qed

lemma grid_cos_sum_zero:
  assumes "0 < k" and "k < 2 * n"
  shows "(\<Sum>j<n. cos (pi * (real j + 1 / 2) * real k / real n)) = 0"
proof -
  let ?t = "pi * real k / real n"
  have n: "real n \<noteq> 0" using assms by (cases n) simp_all
  have "real n * ?t = real k * pi" using n by simp
  then have "sin (real n * ?t) = 0" by (simp only: sin_npi)
  then have "sin (?t / 2) * (\<Sum>j<n. cos ((real j + 1 / 2) * ?t)) = 0"
    by (simp only: sin_half_cos_sum div_0)
  moreover have "sin (?t / 2) \<noteq> 0"
    using sin_pos_between [OF assms] by simp
  ultimately have z: "(\<Sum>j<n. cos ((real j + 1 / 2) * ?t)) = 0" by simp
  have "(\<Sum>j<n. cos (pi * (real j + 1 / 2) * real k / real n)) =
      (\<Sum>j<n. cos ((real j + 1 / 2) * ?t))"
    by (intro sum.cong refl arg_cong [where f = cos]) (simp add: mult.commute mult.left_commute)
  then show ?thesis using z by (simp only:)
qed

text \<open>The type 2 transform of a constant array has the mode \<open>0\<close> only.\<close>

lemma dct2_ones:
  assumes "0 < n"
  shows "dct2 (replicate n 1) = (2 * real n) # replicate (n - 1) 0"
proof (rule nth_equalityI)
  show "length (dct2 (replicate n 1)) = length ((2 * real n) # replicate (n - 1) 0)"
    using assms by (simp add: dct2_def)
next
  fix k
  assume "k < length (dct2 (replicate n 1))"
  then have k: "k < n" by (simp add: dct2_def)
  have "dct2 (replicate n 1) ! k =
      2 * (\<Sum>j = 0..<n. replicate n 1 ! j * cos (pi * (real j + 1 / 2) * real k / real n))"
    using k by (simp add: dct2_def sum_list_upt_sum)
  also have "\<dots> = 2 * (\<Sum>j<n. cos (pi * (real j + 1 / 2) * real k / real n))"
    by (simp add: lessThan_atLeast0)
  finally have e: "dct2 (replicate n 1) ! k =
      2 * (\<Sum>j<n. cos (pi * (real j + 1 / 2) * real k / real n))" .
  show "dct2 (replicate n 1) ! k = ((2 * real n) # replicate (n - 1) 0) ! k"
  proof (cases k)
    case 0
    then show ?thesis using e by simp
  next
    case (Suc k')
    then have "0 < k" "k < 2 * n" using k by simp_all
    from grid_cos_sum_zero [OF this] show ?thesis
      using e Suc k by simp
  qed
qed

subsection \<open>The scalar product of a constant\<close>

lemma scalar_product_ones8:
  "scalar_product (planned_Basis 8 GC dmn vsp) (Some (replicate 8 1)) None True =
    Inr (pi # replicate 7 0,
         (planned_Basis 8 GC dmn vsp)\<lparr>buf_U := replicate 8 1, buf_V := pi # replicate 7 0\<rparr>)"
proof -
  let ?b = "planned_Basis 8 GC dmn vsp"
  have b: "basis_N ?b = int (length (buf_U ?b))" "2 \<le> basis_N ?b"
    "length (replicate 8 (1 :: real)) = length (buf_U ?b)"
    by (simp_all add: planned_Basis_def)
  have d: "xfftn_fwd ?b (replicate 8 1) = 16 # replicate 7 0"
    using dct2_ones [of 8] by (simp add: planned_Basis_def provider_fwd_def)
  have q: "quad ?b = GC" "basis_N ?b = 8" by (simp_all add: planned_Basis_def)
  have "scalar_product ?b (Some (replicate 8 1)) None True =
      Inr (map (\<lambda>y. y * (pi / (2 * real_of_int 8))) (16 # replicate 7 0),
        ?b\<lparr>buf_U := replicate 8 1,
            buf_V := map (\<lambda>y. y * (pi / (2 * real_of_int 8))) (16 # replicate 7 0)\<rparr>)"
    using fast_scalar_product_value [of "?b\<lparr>buf_U := replicate 8 1\<rparr>"] b d q
    by (simp add: scalar_product_def load_input_Some store_output_None)
  then show ?thesis by simp
qed

lemma weights8:
  "points_and_weights (planned_Basis 8 GC dmn vsp) 8 False =
    Inr (map (\<lambda>i. cos (pi * real (2 * i + 1) / 16)) [0..<8], replicate 8 (pi / 8))"
  by (simp add: points_and_weights_def chebgauss_def planned_Basis_def)

text \<open>
  C9, as the code has it. For \<open>N = 8\<close>, Gauss quadrature and the plain basis planned by its
  constructor, \<^verbatim>\<open>scalar_product\<close> of the array of eight ones returns \<open>0\<close> in every mode but
  mode \<open>0\<close>, whose value is the sum of the eight quadrature weights, that is \<open>pi\<close>.
\<close>

theorem scalar_product_ones:
  "scalar_product (planned_Basis 8 GC dmn vsp) (Some (replicate 8 1)) None True =
     Inr (sum_list (snd (projr (points_and_weights (planned_Basis 8 GC dmn vsp) 8 False)))
            # replicate 7 0,
          (planned_Basis 8 GC dmn vsp)\<lparr>buf_U := replicate 8 1, buf_V := pi # replicate 7 0\<rparr>) \<and>
   sum_list (snd (projr (points_and_weights (planned_Basis 8 GC dmn vsp) 8 False))) = pi"
  by (simp add: scalar_product_ones8 weights8 sum_list_replicate)

text \<open>The value of mode \<open>0\<close> is not \<open>pi\<close> times the sum of the weights over \<open>2N\<close>, which is
  \<open>pi\<^sup>2/16\<close>.\<close>

theorem scalar_product_ones_mode0:
  "fst (projr (scalar_product (planned_Basis 8 GC (- 1, 1) (\<lambda>u v. Inr v))
        (Some (replicate 8 1)) None True)) ! 0 \<noteq>
   pi * sum_list (snd (projr (points_and_weights
        (planned_Basis 8 GC (- 1, 1) (\<lambda>u v. Inr v)) 8 False))) / (2 * 8)"
proof -
  have "pi \<noteq> pi * pi / 16"
    using pi_less_4 pi_gt_zero by (simp add: field_simps)
  then show ?thesis
    by (simp add: scalar_product_ones8 weights8 sum_list_replicate)
qed

subsection \<open>Planning twice\<close>

lemma bind_wrappers_forward:
  assumes "bind_wrappers h self U V = Inr (h', s)"
  shows "\<exists>w. plan_forward s = Some w \<and> wrap_input w = U \<and> plan_axis s = plan_axis self \<and>
    plan_xfftn_fwd s = plan_xfftn_fwd self"
  using assms by (auto simp: bind_wrappers_def split: option.splits)

lemma empty_aligned_shape:
  "empty_aligned h dims dt = Inr a \<Longrightarrow> array_shape (fst a) = dims"
  by (auto simp: empty_aligned_def split: if_splits)

lemma ChebyshevBase_plan_planned:
  assumes "ChebyshevBase_plan heap self shape axis dtype options = Inr (h1, s1)"
    and "axis_value axis = Inr ax"
    and "\<not> already_planned self shape ax"
  shows "\<exists>w x. plan_forward s1 = Some w \<and> array_shape (wrap_input w) = shape_tuple shape \<and>
    plan_axis s1 = ax \<and> plan_xfftn_fwd s1 = Some x \<and> xfftn_input x = wrap_input w"
proof -
  from assms obtain a1 p1 p2 where
    a1: "empty_aligned heap (shape_tuple shape) Float64 = Inr a1"
    and p1: "build_dct (snd a1) (fst a1) ax = Inr p1"
    and p2: "build_dct (snd p1) (xfftn_output (fst p1)) ax = Inr p2"
    by (auto simp: ChebyshevBase_plan_def and_then_def split: sum.splits)
  show ?thesis
  proof (cases "dtype = Float64")
    case True
    then have "bind_wrappers (snd p2)
        (self\<lparr>plan_axis := ax,
              plan_xfftn_fwd := Some ((fst p1)\<lparr>xfftn_input := fst a1,
                                     xfftn_output := xfftn_output (fst p1)\<rparr>),
              plan_xfftn_bck := Some ((fst p2)\<lparr>xfftn_input := xfftn_output (fst p1),
                                     xfftn_output := fst a1\<rparr>)\<rparr>)
        (fst a1) (xfftn_output (fst p1)) = Inr (h1, s1)"
      using assms by (simp add: ChebyshevBase_plan_def a1 p1 p2 Let_def)
    from bind_wrappers_forward [OF this] empty_aligned_shape [OF a1]
    show ?thesis by auto
  next
    case False
    with assms obtain a2 a3 where
      a2: "empty_aligned (snd p2) (shape_tuple shape) Complex128 = Inr a2"
      and a3: "empty_aligned (snd a2) (shape_tuple shape) Complex128 = Inr a3"
      by (auto simp: ChebyshevBase_plan_def a1 p1 p2 Let_def and_then_def split: sum.splits)
    from False assms obtain s0 x0 where
      "bind_wrappers (snd a3 + 2) s0 (fst a2) (fst a3) = Inr (h1, s1)" "plan_axis s0 = ax"
      "plan_xfftn_fwd s0 = Some x0" "xfftn_input x0 = fst a2"
      by (simp add: ChebyshevBase_plan_def a1 p1 p2 a2 a3 Let_def)
    from bind_wrappers_forward [OF this(1)] this(2,3,4) empty_aligned_shape [OF a2]
    show ?thesis by auto
  qed
qed

text \<open>With the shape given as a tuple, as a composite space gives it, the second of two
  identical calls changes nothing and allocates nothing.\<close>

lemma ChebyshevBase_plan_tuple_idempotent:
  assumes "ChebyshevBase_plan heap self (ShapeTuple t) axis dtype options = Inr (h1, s1)"
  shows "ChebyshevBase_plan h1 s1 (ShapeTuple t) axis dtype options = Inr (h1, s1)"
proof -
  obtain ax where ax: "axis_value axis = Inr ax"
    using assms by (cases "axis_value axis") (simp_all add: ChebyshevBase_plan_def)
  have "already_planned s1 (ShapeTuple t) ax"
  proof (cases "already_planned self (ShapeTuple t) ax")
    case True
    then show ?thesis using assms ax by (simp add: ChebyshevBase_plan_def)
  next
    case False
    from ChebyshevBase_plan_planned [OF assms ax False]
    show ?thesis by (auto simp: already_planned_def shape_equal_def shape_tuple_def)
  qed
  then show ?thesis by (simp add: ChebyshevBase_plan_def ax)
qed

text \<open>The same holds of a Shen basis whose wrapped plain basis, when planned, has its
  \<^verbatim>\<open>forward\<close> bound to the input array of its forward transform, as \<^verbatim>\<open>plan\<close> leaves it.\<close>

lemma Shen_plan_tuple_idempotent:
  assumes "Shen_plan heap self (ShapeTuple t) axis dtype options = Inr (h1, s1)"
    and inv: "plan_forward (plan_CT self) = None \<or>
      (\<exists>w x. plan_forward (plan_CT self) = Some w \<and> plan_xfftn_fwd (plan_CT self) = Some x \<and>
        xfftn_input x = wrap_input w)"
  shows "Shen_plan h1 s1 (ShapeTuple t) axis dtype options = Inr (h1, s1)"
proof -
  obtain ax where ax: "axis_value axis = Inr ax"
    using assms by (cases "axis_value axis") (simp_all add: Shen_plan_def)
  have "already_planned s1 (ShapeTuple t) ax"
  proof (cases "already_planned self (ShapeTuple t) ax")
    case True
    then show ?thesis using assms ax by (simp add: Shen_plan_def)
  next
    case False
    with assms ax obtain r where
      r: "ChebyshevBase_plan heap (plan_CT self) (ShapeTuple t) (AxisInt ax) dtype options = Inr r"
      by (auto simp: Shen_plan_def and_then_def split: sum.splits)
    have ct: "\<exists>w x. plan_forward (snd r) = Some w \<and> array_shape (wrap_input w) = t \<and>
        plan_axis (snd r) = ax \<and> plan_xfftn_fwd (snd r) = Some x \<and> xfftn_input x = wrap_input w"
    proof (cases "already_planned (plan_CT self) (ShapeTuple t) ax")
      case True
      then have "snd r = plan_CT self"
        using r by (auto simp: ChebyshevBase_plan_def axis_value_def)
      then show ?thesis
        using True inv
        by (auto simp: already_planned_def shape_equal_def split: option.splits)
    next
      case False
      have "ChebyshevBase_plan heap (plan_CT self) (ShapeTuple t) (AxisInt ax) dtype options
          = Inr (fst r, snd r)"
        using r by simp
      from ChebyshevBase_plan_planned [OF this _ False]
      show ?thesis by (auto simp: shape_tuple_def axis_value_def)
    qed
    then obtain w x where x: "plan_xfftn_fwd (snd r) = Some x" "array_shape (xfftn_input x) = t"
      "plan_axis (snd r) = ax"
      by auto
    have b: "bind_wrappers (fst r)
        (self\<lparr>plan_CT := snd r, plan_axis := plan_axis (snd r),
              plan_xfftn_fwd := plan_xfftn_fwd (snd r), plan_xfftn_bck := plan_xfftn_bck (snd r)\<rparr>)
        (xfftn_input x) (xfftn_output x) = Inr (h1, s1)"
      using assms(1) ax False r x by (simp add: Shen_plan_def Let_def)
    from bind_wrappers_forward [OF b] x
    show ?thesis by (auto simp: already_planned_def shape_equal_def)
  qed
  then show ?thesis by (simp add: Shen_plan_def ax)
qed

text \<open>
  C4 at the shape the constructors plan with. \<^verbatim>\<open>Basis(N=8, plan=True)\<close> calls
  \<^verbatim>\<open>plan(8, 0, np.float, {})\<close>; after it \<^verbatim>\<open>forward\<close> is bound to the wrapper \<open>5\<close> on the
  buffers \<open>0\<close> and \<open>2\<close>. The same call once more does not return at the guard, since the
  stored shape \<^verbatim>\<open>(8,)\<close> is not equal to the integer \<open>8\<close>: it allocates again, and
  \<^verbatim>\<open>forward\<close> is then the wrapper \<open>13\<close> on the buffers \<open>8\<close> and \<open>10\<close>. With the shape
  \<^verbatim>\<open>(8,)\<close> in both calls the second call changes nothing. A Shen basis does the same.
\<close>

theorem plan_int_shape_reallocates:
  "map_sum id (forward_identity \<circ> snd)
     (ChebyshevBase_plan 0 unplanned (ShapeInt 8) (AxisInt 0) Float64 []) = Inr (Some (5, 0, 2)) \<and>
   map_sum id (forward_identity \<circ> snd)
     (and_then (ChebyshevBase_plan 0 unplanned (ShapeInt 8) (AxisInt 0) Float64 [])
        (\<lambda>r. ChebyshevBase_plan (fst r) (snd r) (ShapeInt 8) (AxisInt 0) Float64 []))
     = Inr (Some (13, 8, 10)) \<and>
   map_sum id (forward_identity \<circ> snd)
     (and_then (ChebyshevBase_plan 0 unplanned (ShapeTuple [8]) (AxisInt 0) Float64 [])
        (\<lambda>r. ChebyshevBase_plan (fst r) (snd r) (ShapeTuple [8]) (AxisInt 0) Float64 []))
     = Inr (Some (5, 0, 2)) \<and>
   map_sum id (forward_identity \<circ> snd)
     (Shen_plan 0 unplanned_Shen (ShapeInt 8) (AxisInt 0) Float64 []) = Inr (Some (8, 0, 2)) \<and>
   map_sum id (forward_identity \<circ> snd)
     (and_then (Shen_plan 0 unplanned_Shen (ShapeInt 8) (AxisInt 0) Float64 [])
        (\<lambda>r. Shen_plan (fst r) (snd r) (ShapeInt 8) (AxisInt 0) Float64 []))
     = Inr (Some (19, 11, 13))"
  by (simp add: ChebyshevBase_plan_def Shen_plan_def unplanned_def axis_value_def already_planned_def
      shape_equal_def shape_tuple_def empty_aligned_def build_dct_def provider_accepts_def
      bind_wrappers_def forward_identity_def unplanned_Shen_def Let_def)

subsection \<open>Construction, planning and quadrature: what is checked\<close>


















end
